theory Spec2Isabelle
  imports Main
begin

section \<open>The like, match and notification pipeline\<close>

text \<open>
  The pipeline lives in the SQL migrations of the repository (tables \<open>profiles\<close>,
  \<open>likes\<close>, \<open>matches\<close>, \<open>messages\<close>, \<open>notifications\<close> and the trigger functions
  \<open>create_match_on_mutual_like\<close>, \<open>create_notification\<close>, \<open>create_like_notification\<close>,
  \<open>create_match_notification\<close>, \<open>create_message_notification\<close>) and in the discovery
  screen of the client (\<open>fetchProfiles\<close>, \<open>handleLike\<close>).

  A table is the list of its rows in insertion order. A \<open>uuid\<close> is a 128-bit value
  compared as an unsigned number by \<open>LEAST\<close> and \<open>GREATEST\<close>; it is read as a natural
  number here. \<open>gen_random_uuid()\<close> is the counter \<open>next_uuid\<close> of the database.
  The \<open>created_at\<close> columns and the profile columns that no modelled statement reads
  are left out. A value that SQL may hold as \<open>NULL\<close> is an \<open>option\<close>; \<open>first_name\<close>
  is \<open>NOT NULL\<close>, and \<open>is_super_like\<close> defaults to \<open>false\<close> and is always written
  as a boolean by the client. The elements of \<open>content\<close> stand for the characters that
  \<open>LEFT\<close> and \<open>LENGTH\<close> count.
  Every statement runs alone, with its triggers, as one transaction: a statement that
  raises returns \<open>Inl\<close> and leaves no trace. Constraints and triggers are modelled;
  the row-level policies are not, apart from the one on the update arm of the like
  upsert: a policy can only keep a statement from taking effect.
\<close>

subsection \<open>Rows and tables\<close>

type_synonym uuid = nat

record profile_row =
  profile_id :: uuid
  first_name :: string

record like_row =
  like_id :: uuid
  liker_id :: uuid
  liked_id :: uuid
  is_super_like :: bool

record match_row =
  match_id :: uuid
  user1_id :: uuid
  user2_id :: uuid

record message_row =
  message_id :: uuid
  msg_match_id :: uuid
  sender_id :: uuid
  content :: string

type_synonym jsonb = "(string \<times> uuid) list"

record notification_row =
  n_id :: uuid
  n_user_id :: uuid
  n_type :: string
  n_title :: string
  n_message :: string
  n_data :: jsonb
  n_read :: bool

record db =
  profiles :: "profile_row list"
  likes :: "like_row list"
  matches :: "match_row list"
  messages :: "message_row list"
  notifications :: "notification_row list"
  next_uuid :: nat

datatype error =
    UniqueViolation
  | ForeignKeyViolation
  | NotNullViolation
  | CheckViolation
  | PolicyViolation

subsection \<open>SQL expressions\<close>

text \<open>\<open>a || b\<close> on \<open>text\<close>: \<open>NULL\<close> if either side is \<open>NULL\<close>.\<close>

definition sql_concat :: "string option \<Rightarrow> string option \<Rightarrow> string option" where
  "sql_concat a b =
     (case a of None \<Rightarrow> None
      | Some x \<Rightarrow> (case b of None \<Rightarrow> None | Some y \<Rightarrow> Some (x @ y)))"

text \<open>\<open>SELECT first_name INTO v FROM profiles WHERE id = u\<close>: \<open>NULL\<close> when no row matches.\<close>

definition select_first_name :: "db \<Rightarrow> uuid \<Rightarrow> string option" where
  "select_first_name d u =
     map_option first_name (find (\<lambda>p. profile_id p = u) (profiles d))"

text \<open>The foreign keys \<open>REFERENCES profiles(id)\<close>.\<close>

definition profile_exists :: "db \<Rightarrow> uuid \<Rightarrow> bool" where
  "profile_exists d u = (\<exists>p \<in> set (profiles d). profile_id p = u)"

text \<open>The title of a match notification ends in the party-popper emoji, four bytes of UTF-8.\<close>

definition match_title :: string where
  "match_title = ''It's a Match! '' @ [CHR 0xF0, CHR 0x9F, CHR 0x8E, CHR 0x89]"

subsection \<open>Notification fanout\<close>

text \<open>
  \<open>create_notification\<close> inserts one row into \<open>notifications\<close>. The columns \<open>user_id\<close>
  and \<open>message\<close> are \<open>NOT NULL\<close>, \<open>type\<close> has the \<open>CHECK\<close> on four values and
  \<open>user_id\<close> references \<open>profiles\<close>. The callers pass a literal type and title, so only
  the recipient and the message can arrive as \<open>NULL\<close>.
\<close>

definition create_notification ::
  "uuid option \<Rightarrow> string \<Rightarrow> string \<Rightarrow> string option \<Rightarrow> jsonb \<Rightarrow> db \<Rightarrow> error + db" where
  "create_notification p_user_id p_type p_title p_message p_data d =
     (case p_user_id of
        None \<Rightarrow> Inl NotNullViolation
      | Some u \<Rightarrow>
          (case p_message of
             None \<Rightarrow> Inl NotNullViolation
           | Some m \<Rightarrow>
               if p_type \<notin> set [''like'', ''super_like'', ''match'', ''message'']
               then Inl CheckViolation
               else if \<not> profile_exists d u then Inl ForeignKeyViolation
               else Inr (d\<lparr>notifications := notifications d @
                            [\<lparr>n_id = next_uuid d, n_user_id = u, n_type = p_type,
                              n_title = p_title, n_message = m, n_data = p_data,
                              n_read = False\<rparr>],
                          next_uuid := next_uuid d + 1\<rparr>)))"

definition create_like_notification :: "like_row \<Rightarrow> db \<Rightarrow> error + db" where
  "create_like_notification new d =
     (let liker_name = select_first_name d (liker_id new);
          notification_title = (if is_super_like new then ''Super Like!'' else ''New Like!'');
          notification_message =
            (if is_super_like new then sql_concat liker_name (Some '' super liked you!'')
             else sql_concat liker_name (Some '' liked you!''))
      in create_notification (Some (liked_id new))
           (if is_super_like new then ''super_like'' else ''like'')
           notification_title notification_message
           [(''user_id'', liker_id new), (''like_id'', like_id new)] d)"

definition create_match_notification :: "match_row \<Rightarrow> db \<Rightarrow> error + db" where
  "create_match_notification new d =
     (let user1_name = select_first_name d (user1_id new);
          user2_name = select_first_name d (user2_id new)
      in case create_notification (Some (user1_id new)) ''match'' match_title
                (sql_concat (sql_concat (Some ''You and '') user2_name)
                   (Some '' liked each other!''))
                [(''match_id'', match_id new), (''other_user_id'', user2_id new)] d of
           Inl e \<Rightarrow> Inl e
         | Inr d1 \<Rightarrow>
             create_notification (Some (user2_id new)) ''match'' match_title
               (sql_concat (sql_concat (Some ''You and '') user1_name)
                  (Some '' liked each other!''))
               [(''match_id'', match_id new), (''other_user_id'', user1_id new)] d1)"

text \<open>
  \<open>SELECT user1_id, user2_id INTO match_record FROM matches WHERE id = NEW.match_id\<close>
  leaves both fields \<open>NULL\<close> when no row matches; the comparison with \<open>NULL\<close> is then not
  true, the \<open>ELSE\<close> branch runs and the receiver is \<open>NULL\<close>.
\<close>

definition message_receiver :: "message_row \<Rightarrow> db \<Rightarrow> uuid option" where
  "message_receiver new d =
     (case find (\<lambda>m. match_id m = msg_match_id new) (matches d) of
        None \<Rightarrow> None
      | Some match_record \<Rightarrow>
          if user1_id match_record = sender_id new then Some (user2_id match_record)
          else Some (user1_id match_record))"

text \<open>
  The message of the notification:
  \<open>sender_name || ': ' || LEFT(NEW.content, 50) ||
  CASE WHEN LENGTH(NEW.content) > 50 THEN '...' ELSE '' END\<close>.
\<close>

definition message_text :: "string option \<Rightarrow> string \<Rightarrow> string option" where
  "message_text sender_name c =
     sql_concat (sql_concat (sql_concat sender_name (Some '': '')) (Some (take 50 c)))
       (Some (if length c > 50 then ''...'' else ''''))"

definition create_message_notification :: "message_row \<Rightarrow> db \<Rightarrow> error + db" where
  "create_message_notification new d =
     (let receiver_id = message_receiver new d;
          sender_name = select_first_name d (sender_id new)
      in create_notification receiver_id ''message'' ''New Message''
           (message_text sender_name (content new))
           [(''match_id'', msg_match_id new), (''sender_id'', sender_id new),
            (''message_id'', message_id new)] d)"

subsection \<open>Match deriver\<close>

text \<open>
  \<open>INSERT INTO matches (user1_id, user2_id) VALUES (u1, u2) ON CONFLICT (user1_id, user2_id)
  DO NOTHING\<close>: a row with the same pair makes the statement a no-op; otherwise the row
  is added and \<open>match_notification_trigger\<close> (\<open>AFTER INSERT ON matches\<close>) runs on it.
\<close>

definition match_conflict :: "uuid \<Rightarrow> uuid \<Rightarrow> db \<Rightarrow> bool" where
  "match_conflict u1 u2 d = (\<exists>m \<in> set (matches d). user1_id m = u1 \<and> user2_id m = u2)"

definition insert_match :: "uuid \<Rightarrow> uuid \<Rightarrow> db \<Rightarrow> error + db" where
  "insert_match u1 u2 d =
     (if match_conflict u1 u2 d then Inr d
      else if \<not> profile_exists d u1 \<or> \<not> profile_exists d u2 then Inl ForeignKeyViolation
      else let new = \<lparr>match_id = next_uuid d, user1_id = u1, user2_id = u2\<rparr>
           in create_match_notification new
                (d\<lparr>matches := matches d @ [new], next_uuid := next_uuid d + 1\<rparr>))"

text \<open>
  The trigger function runs \<open>AFTER INSERT ON likes FOR EACH ROW\<close>: the database \<open>d\<close> it
  reads already holds the row \<open>new\<close>.
\<close>

definition create_match_on_mutual_like :: "like_row \<Rightarrow> db \<Rightarrow> error + db" where
  "create_match_on_mutual_like new d =
     (if \<exists>l \<in> set (likes d). liker_id l = liked_id new \<and> liked_id l = liker_id new
      then insert_match (min (liker_id new) (liked_id new))
             (max (liker_id new) (liked_id new)) d
      else Inr d)"

subsection \<open>Statements on the tables\<close>

text \<open>
  \<open>INSERT INTO likes (liker_id, liked_id, is_super_like)\<close>: the \<open>UNIQUE(liker_id, liked_id)\<close>
  constraint and the two foreign keys, then the two \<open>AFTER INSERT\<close> row triggers in the
  order of their names, \<open>create_match_trigger\<close> before \<open>like_notification_trigger\<close>.
\<close>

definition insert_like :: "uuid \<Rightarrow> uuid \<Rightarrow> bool \<Rightarrow> db \<Rightarrow> error + db" where
  "insert_like a b s d =
     (if \<exists>l \<in> set (likes d). liker_id l = a \<and> liked_id l = b then Inl UniqueViolation
      else if \<not> profile_exists d a \<or> \<not> profile_exists d b then Inl ForeignKeyViolation
      else let new = \<lparr>like_id = next_uuid d, liker_id = a, liked_id = b, is_super_like = s\<rparr>
           in case create_match_on_mutual_like new
                     (d\<lparr>likes := likes d @ [new], next_uuid := next_uuid d + 1\<rparr>) of
                Inl e \<Rightarrow> Inl e
              | Inr d2 \<Rightarrow> create_like_notification new d2)"

text \<open>
  The client's \<open>upsert([{liker_id, liked_id, is_super_like}], {onConflict:
  'liker_id,liked_id'})\<close> is \<open>INSERT ... ON CONFLICT (liker_id, liked_id) DO UPDATE\<close>.
  When a row with the pair exists the statement takes the update arm, which sets the
  flag of that row and fires no \<open>INSERT\<close> trigger (no trigger is defined on update).
  Row-level security is enabled on \<open>likes\<close> with policies for \<open>SELECT\<close>, \<open>INSERT\<close> and
  \<open>DELETE\<close> and none for \<open>UPDATE\<close>: \<open>upd_ok\<close> says whether the role of the session is
  admitted to the update arm (a role that bypasses row security is, the role
  \<open>authenticated\<close> is refused with an error).
\<close>

definition upsert_like :: "bool \<Rightarrow> uuid \<Rightarrow> uuid \<Rightarrow> bool \<Rightarrow> db \<Rightarrow> error + db" where
  "upsert_like upd_ok a b s d =
     (if \<exists>l \<in> set (likes d). liker_id l = a \<and> liked_id l = b
      then if upd_ok
           then Inr (d\<lparr>likes := map (\<lambda>l. if liker_id l = a \<and> liked_id l = b
                                         then l\<lparr>is_super_like := s\<rparr> else l) (likes d)\<rparr>)
           else Inl PolicyViolation
      else insert_like a b s d)"

text \<open>\<open>DELETE FROM likes WHERE id = i\<close> (the pass action of the messages screen).\<close>

definition delete_like :: "uuid \<Rightarrow> db \<Rightarrow> db" where
  "delete_like i d = d\<lparr>likes := filter (\<lambda>l. like_id l \<noteq> i) (likes d)\<rparr>"

text \<open>
  \<open>INSERT INTO messages (match_id, sender_id, content)\<close>: the two foreign keys, then
  \<open>message_notification_trigger\<close>.
\<close>

definition insert_message :: "uuid \<Rightarrow> uuid \<Rightarrow> string \<Rightarrow> db \<Rightarrow> error + db" where
  "insert_message mid sender c d =
     (if \<not> (\<exists>m \<in> set (matches d). match_id m = mid) \<or> \<not> profile_exists d sender
      then Inl ForeignKeyViolation
      else let new = \<lparr>message_id = next_uuid d, msg_match_id = mid, sender_id = sender,
                       content = c\<rparr>
           in create_message_notification new
                (d\<lparr>messages := messages d @ [new], next_uuid := next_uuid d + 1\<rparr>))"

text \<open>
  A plain \<open>INSERT INTO matches (user1_id, user2_id)\<close>. No code of the repository issues
  it, but the insert policy on \<open>matches\<close> (\<open>TO authenticated WITH CHECK (true)\<close>) admits
  it from any signed-in client, with the ids in any order. A row with the same pair is a
  unique violation; otherwise the row is added as by the trigger, with its notifications.
\<close>

definition direct_match_insert :: "uuid \<Rightarrow> uuid \<Rightarrow> db \<Rightarrow> error + db" where
  "direct_match_insert u1 u2 d =
     (if match_conflict u1 u2 d then Inl UniqueViolation else insert_match u1 u2 d)"

text \<open>
  The other statements of the client on these tables: the profile insert of onboarding
  (\<open>id\<close> is the primary key), the profile update of the profile screen, and the
  \<open>read\<close> update and the delete of the notifications screen.
\<close>

definition insert_profile :: "uuid \<Rightarrow> string \<Rightarrow> db \<Rightarrow> error + db" where
  "insert_profile p n d =
     (if profile_exists d p then Inl UniqueViolation
      else Inr (d\<lparr>profiles := profiles d @ [\<lparr>profile_id = p, first_name = n\<rparr>]\<rparr>))"

definition update_profile :: "uuid \<Rightarrow> string \<Rightarrow> db \<Rightarrow> db" where
  "update_profile p n d =
     d\<lparr>profiles := map (\<lambda>r. if profile_id r = p then r\<lparr>first_name := n\<rparr> else r)
                       (profiles d)\<rparr>"

definition mark_read :: "uuid \<Rightarrow> db \<Rightarrow> db" where
  "mark_read i d =
     d\<lparr>notifications := map (\<lambda>n. if n_id n = i then n\<lparr>n_read := True\<rparr> else n)
                            (notifications d)\<rparr>"

definition delete_notification :: "uuid \<Rightarrow> db \<Rightarrow> db" where
  "delete_notification i d = d\<lparr>notifications := filter (\<lambda>n. n_id n \<noteq> i) (notifications d)\<rparr>"

subsection \<open>Discovery screen\<close>

text \<open>
  \<open>fetchProfiles\<close> returns early without a list when no user is signed in. Its first
  request reads the ids the user has liked; only \<open>data\<close> of the result is taken, so the
  error of a failed request is ignored and its \<open>null\<close> data becomes the empty list of ids
  (\<open>likedProfiles?.map(...) || []\<close>). The second request reads the profiles other than
  the user's own, without the liked ids when there are any, cut at ten rows; its error
  is thrown and reported, and then no list is set. \<open>likes_ok\<close> and \<open>profiles_ok\<close> say
  whether the two requests succeed. The query has no \<open>ORDER BY\<close>: the rows come in an
  order of the database's choosing, which \<open>rank\<close> stands for.
\<close>

definition fetchProfiles ::
  "(profile_row \<Rightarrow> nat) \<Rightarrow> bool \<Rightarrow> bool \<Rightarrow> uuid option \<Rightarrow> db \<Rightarrow> profile_row list option" where
  "fetchProfiles rank likes_ok profiles_ok user d =
     (case user of
        None \<Rightarrow> None
      | Some uid \<Rightarrow>
          let likedProfiles = (if likes_ok
                               then Some (filter (\<lambda>l. liker_id l = uid) (likes d)) else None);
              likedIds = (case likedProfiles of None \<Rightarrow> [] | Some ls \<Rightarrow> map liked_id ls);
              query = filter (\<lambda>p. profile_id p \<noteq> uid) (profiles d);
              query2 = (if length likedIds > 0
                        then filter (\<lambda>p. profile_id p \<notin> set likedIds) query else query)
          in if profiles_ok then Some (take 10 (sort_key rank query2)) else None)"

record discover_screen =
  shown :: "profile_row list"
  currentIndex :: nat

text \<open>
  \<open>handleLike\<close>: nothing happens past the end of the list; a like is the upsert, and an
  error of the upsert is reported and leaves the index where it was; a pass only moves on.
\<close>

definition handleLike ::
  "bool \<Rightarrow> uuid \<Rightarrow> bool \<Rightarrow> bool \<Rightarrow> discover_screen \<times> db \<Rightarrow> discover_screen \<times> db" where
  "handleLike upd_ok user isLike isSuperLike st =
     (let scr = fst st; d = snd st
      in if currentIndex scr \<ge> length (shown scr) then st
         else let profile = shown scr ! currentIndex scr
              in if isLike
                 then (case upsert_like upd_ok user (profile_id profile) isSuperLike d of
                         Inl e \<Rightarrow> st
                       | Inr d2 \<Rightarrow> (scr\<lparr>currentIndex := currentIndex scr + 1\<rparr>, d2))
                 else (scr\<lparr>currentIndex := currentIndex scr + 1\<rparr>, d))"

subsection \<open>Histories\<close>

text \<open>
  The statements that the client issues on the modelled columns, the plain like insert
  and the plain match insert. A statement that raises is rolled back, so it leaves the
  database as it was. A history is run one statement after the other.
\<close>

datatype statement =
    InsertLike uuid uuid bool
  | UpsertLike bool uuid uuid bool
  | DeleteLike uuid
  | InsertMessage uuid uuid string
  | InsertProfile uuid string
  | UpdateProfile uuid string
  | MarkRead uuid
  | DeleteNotification uuid
  | InsertMatch uuid uuid

fun exec :: "db \<Rightarrow> statement \<Rightarrow> db" where
  "exec d (InsertLike a b s) = (case insert_like a b s d of Inl e \<Rightarrow> d | Inr d2 \<Rightarrow> d2)"
| "exec d (UpsertLike upd_ok a b s) =
     (case upsert_like upd_ok a b s d of Inl e \<Rightarrow> d | Inr d2 \<Rightarrow> d2)"
| "exec d (DeleteLike i) = delete_like i d"
| "exec d (InsertMessage mid sender c) =
     (case insert_message mid sender c d of Inl e \<Rightarrow> d | Inr d2 \<Rightarrow> d2)"
| "exec d (InsertProfile p n) = (case insert_profile p n d of Inl e \<Rightarrow> d | Inr d2 \<Rightarrow> d2)"
| "exec d (UpdateProfile p n) = update_profile p n d"
| "exec d (MarkRead i) = mark_read i d"
| "exec d (DeleteNotification i) = delete_notification i d"
| "exec d (InsertMatch u1 u2) =
     (case direct_match_insert u1 u2 d of Inl e \<Rightarrow> d | Inr d2 \<Rightarrow> d2)"

text \<open>A plain match insert is canonical when it gives the smaller id first.\<close>

fun canonical_statement :: "statement \<Rightarrow> bool" where
  "canonical_statement (InsertMatch u1 u2) = (u1 \<le> u2)"
| "canonical_statement st = True"

text \<open>
  Two transactions at \<open>READ COMMITTED\<close> that overlap, one inserting the like of \<open>a\<close> for
  \<open>b\<close> and the other the like of \<open>b\<close> for \<open>a\<close>, with \<open>a\<close> and \<open>b\<close> different: each
  statement and its triggers read the committed database \<open>d\<close> and the statement's own
  row, not the uncommitted row of the other. The two rows have different keys, so
  neither statement waits for the other. Both then commit, and the committed database
  holds what \<open>d\<close> held and the rows each transaction added.
\<close>

definition overlapping_likes :: "uuid \<Rightarrow> uuid \<Rightarrow> bool \<Rightarrow> bool \<Rightarrow> db \<Rightarrow> db" where
  "overlapping_likes a b s1 s2 d =
     (let d1 = (case insert_like a b s1 d of Inl e \<Rightarrow> d | Inr x \<Rightarrow> x);
          d2 = (case insert_like b a s2 (d\<lparr>next_uuid := next_uuid d1\<rparr>) of
                  Inl e \<Rightarrow> d\<lparr>next_uuid := next_uuid d1\<rparr> | Inr x \<Rightarrow> x)
      in \<lparr>profiles = profiles d,
          likes = likes d1 @ drop (length (likes d)) (likes d2),
          matches = matches d1 @ drop (length (matches d)) (matches d2),
          messages = messages d,
          notifications = notifications d1 @ drop (length (notifications d)) (notifications d2),
          next_uuid = next_uuid d2\<rparr>)"

text \<open>The database after the migrations: the profiles given, every other table empty.\<close>

definition fresh_db :: "profile_row list \<Rightarrow> db" where
  "fresh_db ps = \<lparr>profiles = ps, likes = [], matches = [], messages = [],
                  notifications = [], next_uuid = 0\<rparr>"

text \<open>The rows of \<open>matches\<close> that join the unordered pair of \<open>a\<close> and \<open>b\<close>.\<close>

definition match_rows_of :: "uuid \<Rightarrow> uuid \<Rightarrow> db \<Rightarrow> match_row list" where
  "match_rows_of a b d =
     filter (\<lambda>m. (user1_id m = a \<and> user2_id m = b) \<or> (user1_id m = b \<and> user2_id m = a))
       (matches d)"

definition has_like :: "uuid \<Rightarrow> uuid \<Rightarrow> db \<Rightarrow> bool" where
  "has_like a b d = (\<exists>l \<in> set (likes d). liker_id l = a \<and> liked_id l = b)"

subsection \<open>Invariants of the tables\<close>

text \<open>
  Every row of \<open>matches\<close> has the smaller id first, and no two rows have the same pair
  (the \<open>UNIQUE(user1_id, user2_id)\<close> constraint).
\<close>

definition matches_canonical :: "db \<Rightarrow> bool" where
  "matches_canonical d =
     ((\<forall>m \<in> set (matches d). user1_id m \<le> user2_id m) \<and>
      distinct (map (\<lambda>m. (user1_id m, user2_id m)) (matches d)))"

text \<open>Every like whose reciprocal is in the table has its match row.\<close>

definition mutual_matched :: "db \<Rightarrow> bool" where
  "mutual_matched d =
     (\<forall>l1 \<in> set (likes d). \<forall>l2 \<in> set (likes d).
        liker_id l2 = liked_id l1 \<and> liked_id l2 = liker_id l1 \<longrightarrow>
        match_conflict (min (liker_id l1) (liked_id l1)) (max (liker_id l1) (liked_id l1)) d)"

definition pipeline_inv :: "db \<Rightarrow> bool" where
  "pipeline_inv d = (matches_canonical d \<and> mutual_matched d)"

text \<open>Two profiles for the examples.\<close>

definition ann_bob :: "profile_row list" where
  "ann_bob = [\<lparr>profile_id = 10, first_name = ''Ann''\<rparr>, \<lparr>profile_id = 20, first_name = ''Bob''\<rparr>]"

definition ann_bob_cy :: "profile_row list" where
  "ann_bob_cy = ann_bob @ [\<lparr>profile_id = 30, first_name = ''Cy''\<rparr>]"

text \<open>Ann likes herself.\<close>

definition self_liked :: db where
  "self_liked = exec (fresh_db ann_bob) (InsertLike 10 10 False)"

text \<open>Ann and Bob like each other; Cy is a third profile.\<close>

definition matched :: db where
  "matched = foldl exec (fresh_db ann_bob_cy) [InsertLike 10 20 False, InsertLike 20 10 False]"

text \<open>The tables as the match trigger sees them when Bob's like follows Ann's, and after it ran.\<close>

definition second_like_row :: like_row where
  "second_like_row = \<lparr>like_id = 2, liker_id = 20, liked_id = 10, is_super_like = False\<rparr>"

definition before_match :: db where
  "before_match =
     \<lparr>profiles = ann_bob,
      likes = [\<lparr>like_id = 0, liker_id = 10, liked_id = 20, is_super_like = False\<rparr>,
               second_like_row],
      matches = [], messages = [], notifications = [], next_uuid = 3\<rparr>"

definition after_match :: db where
  "after_match =
     before_match\<lparr>
       matches := [\<lparr>match_id = 3, user1_id = 10, user2_id = 20\<rparr>],
       notifications :=
         [\<lparr>n_id = 4, n_user_id = 10, n_type = ''match'', n_title = match_title,
           n_message = ''You and Bob liked each other!'',
           n_data = [(''match_id'', 3), (''other_user_id'', 20)], n_read = False\<rparr>,
          \<lparr>n_id = 5, n_user_id = 20, n_type = ''match'', n_title = match_title,
           n_message = ''You and Ann liked each other!'',
           n_data = [(''match_id'', 3), (''other_user_id'', 10)], n_read = False\<rparr>],
       next_uuid := 6\<rparr>"

section \<open>Properties\<close>

subsection \<open>Reading the fanout functions\<close>

lemma select_first_name_exists:
  "profile_exists d u \<Longrightarrow> \<exists>n. select_first_name d u = Some n"
  unfolding profile_exists_def select_first_name_def
  by (cases "find (\<lambda>p. profile_id p = u) (profiles d)") (auto simp: find_None_iff)

lemma select_first_name_None:
  "select_first_name d u = None \<longleftrightarrow> \<not> profile_exists d u"
  unfolding profile_exists_def select_first_name_def
  by (auto simp: find_None_iff)

lemma create_notification_Inr:
  "create_notification uo t ti mo da d = Inr d' \<Longrightarrow>
     \<exists>u m. uo = Some u \<and> mo = Some m \<and> profile_exists d u \<and>
       d' = d\<lparr>notifications := notifications d @
                 [\<lparr>n_id = next_uuid d, n_user_id = u, n_type = t, n_title = ti,
                   n_message = m, n_data = da, n_read = False\<rparr>],
               next_uuid := next_uuid d + 1\<rparr>"
  unfolding create_notification_def
  by (auto split: option.splits if_splits)

lemma create_notification_frame:
  assumes "create_notification uo t ti mo da d = Inr d'"
  shows "profiles d' = profiles d" "likes d' = likes d" "matches d' = matches d"
    "messages d' = messages d"
  using create_notification_Inr[OF assms] by auto

lemma select_first_name_cong:
  "profiles d' = profiles d \<Longrightarrow> select_first_name d' u = select_first_name d u"
  by (simp add: select_first_name_def)

lemma profile_exists_cong:
  "profiles d' = profiles d \<Longrightarrow> profile_exists d' u = profile_exists d u"
  by (simp add: profile_exists_def)

lemma create_match_notification_Inr:
  assumes "create_match_notification new d = Inr d'"
  shows "\<exists>name1 name2.
     select_first_name d (user1_id new) = Some name1 \<and>
     select_first_name d (user2_id new) = Some name2 \<and>
     d' = d\<lparr>notifications := notifications d @
             [\<lparr>n_id = next_uuid d, n_user_id = user1_id new, n_type = ''match'',
               n_title = match_title,
               n_message = ''You and '' @ name2 @ '' liked each other!'',
               n_data = [(''match_id'', match_id new), (''other_user_id'', user2_id new)],
               n_read = False\<rparr>,
              \<lparr>n_id = next_uuid d + 1, n_user_id = user2_id new, n_type = ''match'',
               n_title = match_title,
               n_message = ''You and '' @ name1 @ '' liked each other!'',
               n_data = [(''match_id'', match_id new), (''other_user_id'', user1_id new)],
               n_read = False\<rparr>],
            next_uuid := next_uuid d + 2\<rparr>"
proof -
  from assms obtain d1 where
    s1: "create_notification (Some (user1_id new)) ''match'' match_title
          (sql_concat (sql_concat (Some ''You and '') (select_first_name d (user2_id new)))
             (Some '' liked each other!''))
          [(''match_id'', match_id new), (''other_user_id'', user2_id new)] d = Inr d1"
    and s2: "create_notification (Some (user2_id new)) ''match'' match_title
          (sql_concat (sql_concat (Some ''You and '') (select_first_name d (user1_id new)))
             (Some '' liked each other!''))
          [(''match_id'', match_id new), (''other_user_id'', user1_id new)] d1 = Inr d'"
    unfolding create_match_notification_def Let_def by (auto split: sum.splits)
  from create_notification_Inr[OF s1] obtain m1 where
    m1: "sql_concat (sql_concat (Some ''You and '') (select_first_name d (user2_id new)))
             (Some '' liked each other!'') = Some m1"
    and d1: "d1 = d\<lparr>notifications := notifications d @
                 [\<lparr>n_id = next_uuid d, n_user_id = user1_id new, n_type = ''match'', n_title = match_title,
                   n_message = m1, n_data = [(''match_id'', match_id new), (''other_user_id'', user2_id new)], n_read = False\<rparr>],
               next_uuid := next_uuid d + 1\<rparr>" by auto
  from create_notification_Inr[OF s2] obtain m2 where
    m2: "sql_concat (sql_concat (Some ''You and '') (select_first_name d (user1_id new)))
             (Some '' liked each other!'') = Some m2"
    and d2: "d' = d1\<lparr>notifications := notifications d1 @
                 [\<lparr>n_id = next_uuid d1, n_user_id = user2_id new, n_type = ''match'', n_title = match_title,
                   n_message = m2, n_data = [(''match_id'', match_id new), (''other_user_id'', user1_id new)], n_read = False\<rparr>],
               next_uuid := next_uuid d1 + 1\<rparr>" by auto
  from m1 obtain name2 where n2: "select_first_name d (user2_id new) = Some name2"
    and m1': "m1 = ''You and '' @ name2 @ '' liked each other!''"
    by (auto simp: sql_concat_def split: option.splits)
  from m2 obtain name1 where n1: "select_first_name d (user1_id new) = Some name1"
    and m2': "m2 = ''You and '' @ name1 @ '' liked each other!''"
    by (auto simp: sql_concat_def split: option.splits)
  show ?thesis using n1 n2 d1 d2 m1' m2' by simp
qed

lemma insert_match_conflict: "match_conflict u1 u2 d \<Longrightarrow> insert_match u1 u2 d = Inr d"
  by (simp add: insert_match_def match_conflict_def)

lemma insert_match_new:
  assumes "insert_match u1 u2 d = Inr d'" and "\<not> match_conflict u1 u2 d"
  shows "\<exists>name1 name2.
     select_first_name d u1 = Some name1 \<and> select_first_name d u2 = Some name2 \<and>
     d' = d\<lparr>matches := matches d @ [\<lparr>match_id = next_uuid d, user1_id = u1, user2_id = u2\<rparr>],
            notifications := notifications d @
             [\<lparr>n_id = next_uuid d + 1, n_user_id = u1, n_type = ''match'',
               n_title = match_title,
               n_message = ''You and '' @ name2 @ '' liked each other!'',
               n_data = [(''match_id'', next_uuid d), (''other_user_id'', u2)],
               n_read = False\<rparr>,
              \<lparr>n_id = next_uuid d + 2, n_user_id = u2, n_type = ''match'',
               n_title = match_title,
               n_message = ''You and '' @ name1 @ '' liked each other!'',
               n_data = [(''match_id'', next_uuid d), (''other_user_id'', u1)],
               n_read = False\<rparr>],
            next_uuid := next_uuid d + 3\<rparr>"
proof -
  let ?new = "\<lparr>match_id = next_uuid d, user1_id = u1, user2_id = u2\<rparr>"
  let ?d1 = "d\<lparr>matches := matches d @ [?new], next_uuid := next_uuid d + 1\<rparr>"
  from assms have "create_match_notification ?new ?d1 = Inr d'"
    unfolding insert_match_def match_conflict_def Let_def by (auto split: if_splits)
  from create_match_notification_Inr[OF this] show ?thesis
    by (auto simp: select_first_name_def)
qed

lemma create_notification_ok:
  assumes "profile_exists d u" "t \<in> set [''like'', ''super_like'', ''match'', ''message'']"
  shows "create_notification (Some u) t ti (Some m) da d =
     Inr (d\<lparr>notifications := notifications d @
                 [\<lparr>n_id = next_uuid d, n_user_id = u, n_type = t, n_title = ti,
                   n_message = m, n_data = da, n_read = False\<rparr>],
               next_uuid := next_uuid d + 1\<rparr>)"
  using assms unfolding create_notification_def by simp

lemma create_match_notification_total:
  assumes "profile_exists d (user1_id new)" "profile_exists d (user2_id new)"
  shows "\<exists>d'. create_match_notification new d = Inr d'"
proof -
  from select_first_name_exists[OF assms(1)] obtain n1 where
    n1: "select_first_name d (user1_id new) = Some n1" by blast
  from select_first_name_exists[OF assms(2)] obtain n2 where
    n2: "select_first_name d (user2_id new) = Some n2" by blast
  have c1: "sql_concat (sql_concat (Some ''You and '') (Some n2)) (Some '' liked each other!'')
        = Some (''You and '' @ n2 @ '' liked each other!'')"
    by (simp add: sql_concat_def)
  have c2: "sql_concat (sql_concat (Some ''You and '') (Some n1)) (Some '' liked each other!'')
        = Some (''You and '' @ n1 @ '' liked each other!'')"
    by (simp add: sql_concat_def)
  have t: "''match'' \<in> set [''like'', ''super_like'', ''match'', ''message'']" by simp
  note k1 = create_notification_ok[OF assms(1) t]
  show ?thesis
    unfolding create_match_notification_def Let_def n1 n2 c1 c2 k1
    using assms(2)
    by (simp add: create_notification_def profile_exists_def)
qed

lemma insert_match_total:
  assumes "profile_exists d u1" "profile_exists d u2"
  shows "\<exists>d'. insert_match u1 u2 d = Inr d'"
proof (cases "match_conflict u1 u2 d")
  case True
  then show ?thesis by (simp add: insert_match_conflict)
next
  case False
  let ?new = "\<lparr>match_id = next_uuid d, user1_id = u1, user2_id = u2\<rparr>"
  let ?d1 = "d\<lparr>matches := matches d @ [?new], next_uuid := next_uuid d + 1\<rparr>"
  have "profile_exists ?d1 (user1_id ?new)" "profile_exists ?d1 (user2_id ?new)"
    using assms by (simp_all add: profile_exists_def)
  from create_match_notification_total[OF this] obtain d' where
    "create_match_notification ?new ?d1 = Inr d'" by blast
  then show ?thesis using False assms
    unfolding insert_match_def match_conflict_def Let_def by auto
qed

lemma insert_match_frame:
  assumes "insert_match u1 u2 d = Inr d'"
  shows "profiles d' = profiles d" "likes d' = likes d" "messages d' = messages d"
  using assms insert_match_new[OF assms] insert_match_conflict[of u1 u2 d]
  by (cases "match_conflict u1 u2 d"; auto)+

lemma insert_match_matches:
  assumes "insert_match u1 u2 d = Inr d'"
  shows "matches d' = (if match_conflict u1 u2 d then matches d
          else matches d @ [\<lparr>match_id = next_uuid d, user1_id = u1, user2_id = u2\<rparr>])"
  using assms insert_match_new[OF assms] insert_match_conflict[of u1 u2 d]
  by (cases "match_conflict u1 u2 d"; auto)

lemma create_like_notification_Inr:
  assumes "create_like_notification new d = Inr d'"
  shows "\<exists>name. select_first_name d (liker_id new) = Some name \<and>
     d' = d\<lparr>notifications := notifications d @
             [\<lparr>n_id = next_uuid d, n_user_id = liked_id new,
               n_type = (if is_super_like new then ''super_like'' else ''like''),
               n_title = (if is_super_like new then ''Super Like!'' else ''New Like!''),
               n_message = name @ (if is_super_like new then '' super liked you!'' else '' liked you!''),
               n_data = [(''user_id'', liker_id new), (''like_id'', like_id new)],
               n_read = False\<rparr>],
            next_uuid := next_uuid d + 1\<rparr>"
proof -
  from assms have "create_notification (Some (liked_id new))
           (if is_super_like new then ''super_like'' else ''like'')
           (if is_super_like new then ''Super Like!'' else ''New Like!'')
           (if is_super_like new then sql_concat (select_first_name d (liker_id new)) (Some '' super liked you!'')
             else sql_concat (select_first_name d (liker_id new)) (Some '' liked you!''))
           [(''user_id'', liker_id new), (''like_id'', like_id new)] d = Inr d'"
    unfolding create_like_notification_def Let_def by simp
  from create_notification_Inr[OF this] show ?thesis
    by (cases "select_first_name d (liker_id new)") (auto simp: sql_concat_def split: if_splits)
qed

lemma create_like_notification_frame:
  assumes "create_like_notification new d = Inr d'"
  shows "profiles d' = profiles d" "likes d' = likes d" "matches d' = matches d"
    "messages d' = messages d"
  using create_like_notification_Inr[OF assms] by auto

lemma create_match_on_mutual_like_frame:
  assumes "create_match_on_mutual_like new d = Inr d'"
  shows "profiles d' = profiles d" "likes d' = likes d" "messages d' = messages d"
  using assms insert_match_frame unfolding create_match_on_mutual_like_def
  by (auto split: if_splits)

subsection \<open>The invariant along a history\<close>

lemma inv_fresh: "pipeline_inv (fresh_db ps)"
  by (simp add: pipeline_inv_def matches_canonical_def mutual_matched_def fresh_db_def)

lemma match_conflict_mono:
  "set (matches d) \<subseteq> set (matches d') \<Longrightarrow> match_conflict x y d \<Longrightarrow> match_conflict x y d'"
  unfolding match_conflict_def by blast

lemma insert_match_canonical:
  assumes "matches_canonical d" "u1 \<le> u2" "insert_match u1 u2 d = Inr d'"
  shows "matches_canonical d'"
proof (cases "match_conflict u1 u2 d")
  case True
  with assms show ?thesis by (simp add: insert_match_conflict)
next
  case False
  from insert_match_matches[OF assms(3)] False
  have m: "matches d' = matches d @ [\<lparr>match_id = next_uuid d, user1_id = u1, user2_id = u2\<rparr>]"
    by simp
  from False have "(u1, u2) \<notin> set (map (\<lambda>m. (user1_id m, user2_id m)) (matches d))"
    unfolding match_conflict_def by auto
  with assms(1,2) show ?thesis unfolding matches_canonical_def m by auto
qed

lemma insert_match_grows:
  assumes "insert_match u1 u2 d = Inr d'"
  shows "set (matches d) \<subseteq> set (matches d')" "match_conflict u1 u2 d'"
  using insert_match_matches[OF assms]
  by (auto simp: match_conflict_def split: if_splits)

lemma create_match_canonical:
  assumes "matches_canonical d" "create_match_on_mutual_like new d = Inr d'"
  shows "matches_canonical d'"
  using assms insert_match_canonical[of d "min (liker_id new) (liked_id new)"
      "max (liker_id new) (liked_id new)" d']
  unfolding create_match_on_mutual_like_def by (auto split: if_splits)

lemma create_match_grows:
  assumes "create_match_on_mutual_like new d = Inr d'"
  shows "set (matches d) \<subseteq> set (matches d')"
  using assms insert_match_grows(1) unfolding create_match_on_mutual_like_def
  by (auto split: if_splits)

lemma create_match_reciprocal:
  assumes "create_match_on_mutual_like new d = Inr d'"
    and "\<exists>l \<in> set (likes d). liker_id l = liked_id new \<and> liked_id l = liker_id new"
  shows "match_conflict (min (liker_id new) (liked_id new)) (max (liker_id new) (liked_id new)) d'"
  using assms insert_match_grows(2) unfolding create_match_on_mutual_like_def
  by (auto split: if_splits)

lemma insert_like_Inr:
  assumes "insert_like a b s d = Inr d'"
  shows "\<exists>d2. \<not> has_like a b d \<and> profile_exists d a \<and> profile_exists d b \<and>
     create_match_on_mutual_like \<lparr>like_id = next_uuid d, liker_id = a, liked_id = b, is_super_like = s\<rparr>
       (d\<lparr>likes := likes d @ [\<lparr>like_id = next_uuid d, liker_id = a, liked_id = b, is_super_like = s\<rparr>],
          next_uuid := next_uuid d + 1\<rparr>) = Inr d2 \<and>
     create_like_notification \<lparr>like_id = next_uuid d, liker_id = a, liked_id = b, is_super_like = s\<rparr> d2 = Inr d'"
  using assms unfolding insert_like_def has_like_def Let_def
  by (auto split: if_splits sum.splits)

lemma inv_insert_like:
  assumes inv: "pipeline_inv d" and ins: "insert_like a b s d = Inr d'"
  shows "pipeline_inv d'"
proof -
  let ?new = "\<lparr>like_id = next_uuid d, liker_id = a, liked_id = b, is_super_like = s\<rparr>"
  let ?d1 = "d\<lparr>likes := likes d @ [?new], next_uuid := next_uuid d + 1\<rparr>"
  from insert_like_Inr[OF ins] obtain d2 where
    cm: "create_match_on_mutual_like ?new ?d1 = Inr d2"
    and cl: "create_like_notification ?new d2 = Inr d'" by blast
  have can1: "matches_canonical ?d1" using inv
    by (simp add: pipeline_inv_def matches_canonical_def)
  have can2: "matches_canonical d2" by (rule create_match_canonical[OF can1 cm])
  have m': "matches d' = matches d2" by (rule create_like_notification_frame(3)[OF cl])
  have l': "likes d' = likes d @ [?new]"
    using create_like_notification_frame(2)[OF cl] create_match_on_mutual_like_frame(2)[OF cm]
    by simp
  have grow: "set (matches d) \<subseteq> set (matches d')"
    using create_match_grows[OF cm] m' by simp
  have can': "matches_canonical d'" using can2 m' by (simp add: matches_canonical_def)
  have mm: "mutual_matched d'"
    unfolding mutual_matched_def
  proof (intro ballI impI)
    fix l1 l2
    assume l1: "l1 \<in> set (likes d')" and l2: "l2 \<in> set (likes d')"
      and rec: "liker_id l2 = liked_id l1 \<and> liked_id l2 = liker_id l1"
    show "match_conflict (min (liker_id l1) (liked_id l1)) (max (liker_id l1) (liked_id l1)) d'"
    proof (cases "l1 \<in> set (likes d) \<and> l2 \<in> set (likes d)")
      case True
      with inv rec have "match_conflict (min (liker_id l1) (liked_id l1))
          (max (liker_id l1) (liked_id l1)) d"
        unfolding pipeline_inv_def mutual_matched_def by blast
      then show ?thesis by (rule match_conflict_mono[OF grow])
    next
      case False
      with l1 l2 l' have "l1 = ?new \<or> l2 = ?new" by auto
      then have pair: "min (liker_id l1) (liked_id l1) = min a b \<and>
          max (liker_id l1) (liked_id l1) = max a b"
        using rec by (auto simp: min_def max_def)
      have "\<exists>l \<in> set (likes ?d1). liker_id l = liked_id ?new \<and> liked_id l = liker_id ?new"
      proof (cases "l1 = ?new")
        case True
        with l2 l' rec show ?thesis by (intro bexI[of _ l2]) auto
      next
        case False
        with \<open>l1 = ?new \<or> l2 = ?new\<close> have "l2 = ?new" by simp
        with l1 l' rec show ?thesis by (intro bexI[of _ l1]) auto
      qed
      from create_match_reciprocal[OF cm this]
      have "match_conflict (min a b) (max a b) d2" by simp
      then show ?thesis using pair m' by (simp add: match_conflict_def)
    qed
  qed
  show ?thesis using can' mm by (simp add: pipeline_inv_def)
qed

lemma inv_likes_subset:
  assumes inv: "pipeline_inv d" and sub: "set (likes d') \<subseteq> set (likes d)"
    and same: "matches d' = matches d"
  shows "pipeline_inv d'"
proof -
  have "mutual_matched d'"
    unfolding mutual_matched_def
  proof (intro ballI impI)
    fix l1 l2
    assume "l1 \<in> set (likes d')" "l2 \<in> set (likes d')"
      and rec: "liker_id l2 = liked_id l1 \<and> liked_id l2 = liker_id l1"
    with sub have "l1 \<in> set (likes d)" "l2 \<in> set (likes d)" by auto
    with inv rec
    have "match_conflict (min (liker_id l1) (liked_id l1)) (max (liker_id l1) (liked_id l1)) d"
      unfolding pipeline_inv_def mutual_matched_def by blast
    then show "match_conflict (min (liker_id l1) (liked_id l1))
        (max (liker_id l1) (liked_id l1)) d'"
      using same by (simp add: match_conflict_def)
  qed
  then show ?thesis using inv same by (simp add: pipeline_inv_def matches_canonical_def)
qed

lemma inv_delete_like: "pipeline_inv d \<Longrightarrow> pipeline_inv (delete_like i d)"
  by (rule inv_likes_subset) (auto simp: delete_like_def)

lemma upsert_update_pairs:
  "map (\<lambda>l. (like_id l, liker_id l, liked_id l))
     (map (\<lambda>l. if liker_id l = a \<and> liked_id l = b then l\<lparr>is_super_like := s\<rparr> else l) ls) =
   map (\<lambda>l. (like_id l, liker_id l, liked_id l)) ls"
  by (induction ls) auto

lemma inv_same_pairs:
  assumes "pipeline_inv d"
    "map (\<lambda>l. (like_id l, liker_id l, liked_id l)) (likes d') =
     map (\<lambda>l. (like_id l, liker_id l, liked_id l)) (likes d)"
    "matches d' = matches d"
  shows "pipeline_inv d'"
proof -
  have eq: "(\<lambda>l. (liker_id l, liked_id l)) ` set (likes d') = (\<lambda>l. (liker_id l, liked_id l)) ` set (likes d)"
  proof -
    have "map (\<lambda>t. (fst (snd t), snd (snd t))) (map (\<lambda>l. (like_id l, liker_id l, liked_id l)) (likes d'))
        = map (\<lambda>t. (fst (snd t), snd (snd t))) (map (\<lambda>l. (like_id l, liker_id l, liked_id l)) (likes d))"
      using assms(2) by simp
    then have "map (\<lambda>l. (liker_id l, liked_id l)) (likes d') = map (\<lambda>l. (liker_id l, liked_id l)) (likes d)"
      by (simp add: comp_def)
    then have "set (map (\<lambda>l. (liker_id l, liked_id l)) (likes d')) = set (map (\<lambda>l. (liker_id l, liked_id l)) (likes d))"
      by simp
    then show ?thesis by simp
  qed
  have mm: "mutual_matched d'"
    unfolding mutual_matched_def
  proof (intro ballI impI)
    fix l1 l2
    assume l1: "l1 \<in> set (likes d')" and l2: "l2 \<in> set (likes d')"
      and rec: "liker_id l2 = liked_id l1 \<and> liked_id l2 = liker_id l1"
    from l1 have "(liker_id l1, liked_id l1) \<in> (\<lambda>l. (liker_id l, liked_id l)) ` set (likes d)"
      unfolding eq[symmetric] by (rule imageI)
    then obtain k1 where k1: "k1 \<in> set (likes d)" "liker_id k1 = liker_id l1" "liked_id k1 = liked_id l1"
      by auto
    from l2 have "(liker_id l2, liked_id l2) \<in> (\<lambda>l. (liker_id l, liked_id l)) ` set (likes d)"
      unfolding eq[symmetric] by (rule imageI)
    then obtain k2 where k2: "k2 \<in> set (likes d)" "liker_id k2 = liker_id l2" "liked_id k2 = liked_id l2"
      by auto
    from assms(1) k1 k2 rec
    have "match_conflict (min (liker_id k1) (liked_id k1)) (max (liker_id k1) (liked_id k1)) d"
      unfolding pipeline_inv_def mutual_matched_def by auto
    then show "match_conflict (min (liker_id l1) (liked_id l1)) (max (liker_id l1) (liked_id l1)) d'"
      using k1 assms(3) by (simp add: match_conflict_def)
  qed
  show ?thesis using assms(1,3) mm by (simp add: pipeline_inv_def matches_canonical_def)
qed

lemma inv_upsert_like:
  assumes "pipeline_inv d" "upsert_like upd_ok a b s d = Inr d'"
  shows "pipeline_inv d'"
proof (cases "has_like a b d")
  case True
  with assms(2) have "d' = d\<lparr>likes := map (\<lambda>l. if liker_id l = a \<and> liked_id l = b
                                         then l\<lparr>is_super_like := s\<rparr> else l) (likes d)\<rparr>"
    unfolding upsert_like_def has_like_def by (auto split: if_splits)
  then show ?thesis using assms(1)
    by (intro inv_same_pairs[of d d']) (simp_all add: upsert_update_pairs)
next
  case False
  with assms(2) have "insert_like a b s d = Inr d'"
    unfolding upsert_like_def has_like_def by (auto split: if_splits)
  then show ?thesis by (rule inv_insert_like[OF assms(1)])
qed

lemma create_message_notification_Inr:
  assumes "create_message_notification new d = Inr d'"
  shows "\<exists>r name. message_receiver new d = Some r \<and>
     select_first_name d (sender_id new) = Some name \<and>
     d' = d\<lparr>notifications := notifications d @
             [\<lparr>n_id = next_uuid d, n_user_id = r, n_type = ''message'',
               n_title = ''New Message'',
               n_message = name @ '': '' @ take 50 (content new) @
                  (if length (content new) > 50 then ''...'' else ''''),
               n_data = [(''match_id'', msg_match_id new), (''sender_id'', sender_id new),
                         (''message_id'', message_id new)],
               n_read = False\<rparr>],
            next_uuid := next_uuid d + 1\<rparr>"
proof -
  from assms have "create_notification (message_receiver new d) ''message'' ''New Message''
           (message_text (select_first_name d (sender_id new)) (content new))
           [(''match_id'', msg_match_id new), (''sender_id'', sender_id new),
            (''message_id'', message_id new)] d = Inr d'"
    unfolding create_message_notification_def Let_def by simp
  from create_notification_Inr[OF this] show ?thesis
    by (cases "select_first_name d (sender_id new)")
       (auto simp: message_text_def sql_concat_def split: if_splits)
qed

lemma insert_message_Inr:
  assumes "insert_message mid sender c d = Inr d'"
  shows "create_message_notification
           \<lparr>message_id = next_uuid d, msg_match_id = mid, sender_id = sender, content = c\<rparr>
           (d\<lparr>messages := messages d @
                [\<lparr>message_id = next_uuid d, msg_match_id = mid, sender_id = sender, content = c\<rparr>],
              next_uuid := next_uuid d + 1\<rparr>) = Inr d'"
  using assms unfolding insert_message_def Let_def by (auto split: if_splits)

lemma insert_message_frame:
  assumes "insert_message mid sender c d = Inr d'"
  shows "likes d' = likes d" "matches d' = matches d" "profiles d' = profiles d"
  using create_message_notification_Inr[OF insert_message_Inr[OF assms]] by auto

lemma inv_insert_message:
  assumes "pipeline_inv d" "insert_message mid sender c d = Inr d'"
  shows "pipeline_inv d'"
  using assms(1) insert_message_frame[OF assms(2)]
  by (intro inv_likes_subset[of d d']) simp_all

lemma inv_exec: "pipeline_inv d \<Longrightarrow> canonical_statement st \<Longrightarrow> pipeline_inv (exec d st)"
proof (cases st)
  case (InsertLike a b s)
  assume "pipeline_inv d"
  then show ?thesis using InsertLike inv_insert_like[of d a b s]
    by (cases "insert_like a b s d") auto
next
  case (UpsertLike u a b s)
  assume "pipeline_inv d"
  then show ?thesis using UpsertLike inv_upsert_like[of d u a b s]
    by (cases "upsert_like u a b s d") auto
next
  case (DeleteLike i)
  assume "pipeline_inv d"
  then show ?thesis using DeleteLike by (simp add: inv_delete_like)
next
  case (InsertMessage m sd c)
  assume "pipeline_inv d"
  then show ?thesis using InsertMessage inv_insert_message[of d m sd c]
    by (cases "insert_message m sd c d") auto
next
  case (InsertProfile p n)
  assume "pipeline_inv d"
  then have "pipeline_inv (exec d (InsertProfile p n))"
    by (rule inv_likes_subset) (simp_all add: insert_profile_def)
  with InsertProfile show ?thesis by simp
next
  case (UpdateProfile p n)
  assume "pipeline_inv d"
  then have "pipeline_inv (update_profile p n d)"
    by (rule inv_likes_subset) (simp_all add: update_profile_def)
  with UpdateProfile show ?thesis by simp
next
  case (MarkRead i)
  assume "pipeline_inv d"
  then have "pipeline_inv (mark_read i d)"
    by (rule inv_likes_subset) (simp_all add: mark_read_def)
  with MarkRead show ?thesis by simp
next
  case (DeleteNotification i)
  assume "pipeline_inv d"
  then have "pipeline_inv (delete_notification i d)"
    by (rule inv_likes_subset) (simp_all add: delete_notification_def)
  with DeleteNotification show ?thesis by simp
next
  case (InsertMatch u1 u2)
  assume inv: "pipeline_inv d" and "canonical_statement st"
  with InsertMatch have le: "u1 \<le> u2" by simp
  show ?thesis
  proof (cases "direct_match_insert u1 u2 d")
    case (Inl e)
    with inv InsertMatch show ?thesis by simp
  next
    case (Inr d')
    then have im: "insert_match u1 u2 d = Inr d'"
      by (simp add: direct_match_insert_def split: if_splits)
    from inv have "matches_canonical d" by (simp add: pipeline_inv_def)
    from insert_match_canonical[OF this le im] have can: "matches_canonical d'" .
    have "mutual_matched d'"
      unfolding mutual_matched_def
    proof (intro ballI impI)
      fix l1 l2
      assume "l1 \<in> set (likes d')" "l2 \<in> set (likes d')"
        and rec: "liker_id l2 = liked_id l1 \<and> liked_id l2 = liker_id l1"
      then have "l1 \<in> set (likes d)" "l2 \<in> set (likes d)"
        using insert_match_frame(2)[OF im] by simp_all
      with inv rec
      have "match_conflict (min (liker_id l1) (liked_id l1)) (max (liker_id l1) (liked_id l1)) d"
        unfolding pipeline_inv_def mutual_matched_def by blast
      then show "match_conflict (min (liker_id l1) (liked_id l1))
          (max (liker_id l1) (liked_id l1)) d'"
        by (rule match_conflict_mono[OF insert_match_grows(1)[OF im]])
    qed
    with can have "pipeline_inv d'" by (simp add: pipeline_inv_def)
    with InsertMatch Inr show ?thesis by simp
  qed
qed

lemma inv_foldl:
  "pipeline_inv d \<Longrightarrow> \<forall>st \<in> set sts. canonical_statement st \<Longrightarrow>
   pipeline_inv (foldl exec d sts)"
  by (induction sts arbitrary: d) (simp_all add: inv_exec)

lemma filter_distinct_key:
  assumes "distinct (map f xs)" "x \<in> set xs"
  shows "filter (\<lambda>y. f y = f x) xs = [x]"
  using assms
proof (induction xs)
  case Nil
  then show ?case by simp
next
  case (Cons y ys)
  from Cons.prems(1) have notin: "f y \<notin> f ` set ys" and dist: "distinct (map f ys)"
    by simp_all
  show ?case
  proof (cases "y = x")
    case True
    from notin True have "f x \<notin> f ` set ys" by simp
    then have "\<forall>z \<in> set ys. f z \<noteq> f x" by (auto simp: image_iff)
    then have "filter (\<lambda>y. f y = f x) ys = []" by (simp add: filter_empty_conv)
    with True show ?thesis by simp
  next
    case False
    with Cons.prems(2) have xin: "x \<in> set ys" by simp
    with notin have "f y \<noteq> f x" by (auto simp: image_iff)
    with Cons.IH[OF dist xin] show ?thesis by simp
  qed
qed

lemma canonical_pair_rows:
  assumes can: "matches_canonical d" and mc: "match_conflict (min a b) (max a b) d"
  shows "\<exists>m. match_rows_of a b d = [m] \<and> user1_id m = min a b \<and> user2_id m = max a b"
proof -
  from mc obtain m where m: "m \<in> set (matches d)" "user1_id m = min a b" "user2_id m = max a b"
    unfolding match_conflict_def by blast
  from can have le: "\<forall>x \<in> set (matches d). user1_id x \<le> user2_id x"
    and dist: "distinct (map (\<lambda>m. (user1_id m, user2_id m)) (matches d))"
    unfolding matches_canonical_def by simp_all
  have "match_rows_of a b d =
      filter (\<lambda>y. (user1_id y, user2_id y) = (user1_id m, user2_id m)) (matches d)"
    unfolding match_rows_of_def
  proof (rule filter_cong[OF refl])
    fix x assume "x \<in> set (matches d)"
    with le have "user1_id x \<le> user2_id x" by blast
    then show "((user1_id x = a \<and> user2_id x = b) \<or> (user1_id x = b \<and> user2_id x = a)) =
        ((user1_id x, user2_id x) = (user1_id m, user2_id m))"
      using m(2,3) by (auto simp: min_def max_def)
  qed
  also have "\<dots> = [m]"
    by (rule filter_distinct_key[OF dist m(1)])
  finally show ?thesis using m by blast
qed

lemma inv_mutual_match:
  assumes inv: "pipeline_inv d" and ab: "has_like a b d" and ba: "has_like b a d"
  shows "\<exists>m. match_rows_of a b d = [m] \<and> user1_id m = min a b \<and> user2_id m = max a b"
proof -
  from ab obtain l1 where l1: "l1 \<in> set (likes d)" "liker_id l1 = a" "liked_id l1 = b"
    unfolding has_like_def by blast
  from ba obtain l2 where l2: "l2 \<in> set (likes d)" "liker_id l2 = b" "liked_id l2 = a"
    unfolding has_like_def by blast
  from inv l1 l2 have "match_conflict (min a b) (max a b) d"
    unfolding pipeline_inv_def mutual_matched_def by blast
  moreover from inv have "matches_canonical d" by (simp add: pipeline_inv_def)
  ultimately show ?thesis by (intro canonical_pair_rows)
qed

subsection \<open>The upsert of the discovery screen\<close>

lemma upsert_like_existing:
  assumes "has_like a b d"
  shows "upsert_like upd_ok a b s d =
     (if upd_ok
      then Inr (d\<lparr>likes := map (\<lambda>l. if liker_id l = a \<and> liked_id l = b
                                    then l\<lparr>is_super_like := s\<rparr> else l) (likes d)\<rparr>)
      else Inl PolicyViolation)"
  using assms unfolding upsert_like_def has_like_def by simp

lemma upsert_update_flags:
  assumes "l \<in> set (map (\<lambda>l. if liker_id l = a \<and> liked_id l = b
                              then l\<lparr>is_super_like := s\<rparr> else l) ls)"
    and "liker_id l = a \<and> liked_id l = b"
  shows "is_super_like l = s"
proof -
  from assms(1) have "l \<in> (\<lambda>l. if liker_id l = a \<and> liked_id l = b
                              then l\<lparr>is_super_like := s\<rparr> else l) ` set ls"
    by (simp only: set_map)
  then obtain x where
    l: "l = (if liker_id x = a \<and> liked_id x = b then x\<lparr>is_super_like := s\<rparr> else x)"
    by (rule imageE)
  show ?thesis
  proof (cases "liker_id x = a \<and> liked_id x = b")
    case True
    with l show ?thesis by simp
  next
    case False
    with l assms(2) show ?thesis by simp
  qed
qed

lemma same_pairs_project:
  assumes "map (\<lambda>l. (like_id l, liker_id l, liked_id l)) ls' =
     map (\<lambda>l. (like_id l, liker_id l, liked_id l)) ls"
  shows "map (\<lambda>l. (liker_id l, liked_id l)) ls' = map (\<lambda>l. (liker_id l, liked_id l)) ls"
proof -
  have "map (\<lambda>t. (fst (snd t), snd (snd t))) (map (\<lambda>l. (like_id l, liker_id l, liked_id l)) ls')
      = map (\<lambda>t. (fst (snd t), snd (snd t))) (map (\<lambda>l. (like_id l, liker_id l, liked_id l)) ls)"
    using assms by simp
  then show ?thesis by (simp add: comp_def)
qed

lemma count_pair_rows:
  "length (filter (\<lambda>l. liker_id l = a \<and> liked_id l = b) ls) =
   length (filter (\<lambda>p. p = (a, b)) (map (\<lambda>l. (liker_id l, liked_id l)) ls))"
  by (induction ls) simp_all

lemma distinct_count_one:
  assumes "distinct xs" "x \<in> set xs"
  shows "length (filter (\<lambda>p. p = x) xs) = 1"
  using assms
proof (induction xs)
  case Nil
  then show ?case by simp
next
  case (Cons y ys)
  show ?case
  proof (cases "y = x")
    case True
    with Cons.prems have "x \<notin> set ys" by simp
    then have "filter (\<lambda>p. p = x) ys = []" by (auto simp: filter_empty_conv)
    with True show ?thesis by simp
  next
    case False
    with Cons show ?thesis by simp
  qed
qed

lemma handleLike_like:
  assumes "currentIndex scr < length (shown scr)"
  shows "handleLike upd_ok a True s (scr, d) =
      (case upsert_like upd_ok a (profile_id (shown scr ! currentIndex scr)) s d of
         Inl e \<Rightarrow> (scr, d)
       | Inr d2 \<Rightarrow> (scr\<lparr>currentIndex := currentIndex scr + 1\<rparr>, d2))"
  using assms unfolding handleLike_def Let_def by (simp split: sum.splits)

subsection \<open>Running the model on concrete tables\<close>

lemmas run_defs = fresh_db_def ann_bob_def insert_like_def upsert_like_def
  create_match_on_mutual_like_def insert_match_def match_conflict_def
  create_match_notification_def create_like_notification_def create_notification_def
  select_first_name_def profile_exists_def sql_concat_def Let_def
  insert_message_def create_message_notification_def message_receiver_def message_text_def
  delete_like_def

lemma self_liked_eq: "self_liked =
  \<lparr>profiles = ann_bob,
   likes = [\<lparr>like_id = 0, liker_id = 10, liked_id = 10, is_super_like = False\<rparr>],
   matches = [\<lparr>match_id = 1, user1_id = 10, user2_id = 10\<rparr>], messages = [],
   notifications =
     [\<lparr>n_id = 2, n_user_id = 10, n_type = ''match'', n_title = match_title,
       n_message = ''You and Ann liked each other!'',
       n_data = [(''match_id'', 1), (''other_user_id'', 10)], n_read = False\<rparr>,
      \<lparr>n_id = 3, n_user_id = 10, n_type = ''match'', n_title = match_title,
       n_message = ''You and Ann liked each other!'',
       n_data = [(''match_id'', 1), (''other_user_id'', 10)], n_read = False\<rparr>,
      \<lparr>n_id = 4, n_user_id = 10, n_type = ''like'', n_title = ''New Like!'',
       n_message = ''Ann liked you!'',
       n_data = [(''user_id'', 10), (''like_id'', 0)], n_read = False\<rparr>],
   next_uuid = 5\<rparr>"
  by (simp add: self_liked_def run_defs)

lemma matched_eq: "matched =
  \<lparr>profiles = ann_bob_cy,
   likes = [\<lparr>like_id = 0, liker_id = 10, liked_id = 20, is_super_like = False\<rparr>,
            \<lparr>like_id = 2, liker_id = 20, liked_id = 10, is_super_like = False\<rparr>],
   matches = [\<lparr>match_id = 3, user1_id = 10, user2_id = 20\<rparr>], messages = [],
   notifications =
     [\<lparr>n_id = 1, n_user_id = 20, n_type = ''like'', n_title = ''New Like!'',
       n_message = ''Ann liked you!'',
       n_data = [(''user_id'', 10), (''like_id'', 0)], n_read = False\<rparr>,
      \<lparr>n_id = 4, n_user_id = 10, n_type = ''match'', n_title = match_title,
       n_message = ''You and Bob liked each other!'',
       n_data = [(''match_id'', 3), (''other_user_id'', 20)], n_read = False\<rparr>,
      \<lparr>n_id = 5, n_user_id = 20, n_type = ''match'', n_title = match_title,
       n_message = ''You and Ann liked each other!'',
       n_data = [(''match_id'', 3), (''other_user_id'', 10)], n_read = False\<rparr>,
      \<lparr>n_id = 6, n_user_id = 10, n_type = ''like'', n_title = ''New Like!'',
       n_message = ''Bob liked you!'',
       n_data = [(''user_id'', 20), (''like_id'', 2)], n_read = False\<rparr>],
   next_uuid = 7\<rparr>"
  by (simp add: matched_def ann_bob_cy_def run_defs)

section \<open>The claims\<close>

subsection \<open>Mutual likes and their match\<close>

text \<open>
  Against C1 for any database in which both likes exist: after Ann and Bob liked each
  other, a plain insert of the match row with Bob first commits, and the pair of Ann and
  Bob has two match rows.
\<close>

theorem direct_match_insert_counterexample:
  "has_like 10 20 (exec matched (InsertMatch 20 10)) \<and>
   has_like 20 10 (exec matched (InsertMatch 20 10)) \<and>
   match_rows_of 10 20 (exec matched (InsertMatch 20 10)) =
     [\<lparr>match_id = 3, user1_id = 10, user2_id = 20\<rparr>,
      \<lparr>match_id = 7, user1_id = 20, user2_id = 10\<rparr>]"
  by (simp add: has_like_def match_rows_of_def direct_match_insert_def matched_eq
      ann_bob_cy_def run_defs)

text \<open>
  Nor does the property survive overlapping transactions: when the like of Ann for Bob
  and the like of Bob for Ann are inserted by two transactions that overlap, neither
  trigger sees the other like, both likes are committed and the pair has no match row.
\<close>

theorem overlapping_likes_lose_match:
  "has_like 10 20 (overlapping_likes 10 20 False False (fresh_db ann_bob)) \<and>
   has_like 20 10 (overlapping_likes 10 20 False False (fresh_db ann_bob)) \<and>
   match_rows_of 10 20 (overlapping_likes 10 20 False False (fresh_db ann_bob)) = []"
  by (simp add: has_like_def match_rows_of_def overlapping_likes_def run_defs)

text \<open>
  C1. Start from the migrated database with any profiles and run, one after the other,
  any sequence of statements (like inserts, upserts and deletes, message inserts,
  profile inserts and updates, notification updates and deletes, plain match inserts),
  each with its triggers, in which every plain match insert gives the smaller id first.
  In the database reached, whenever the like of \<open>a\<close> for \<open>b\<close> and the like of \<open>b\<close> for
  \<open>a\<close> are both in \<open>likes\<close>, the rows of \<open>matches\<close> that join \<open>a\<close> and \<open>b\<close> in either
  order are exactly one row, with \<open>user1_id = min a b\<close> and \<open>user2_id = max a b\<close>.
\<close>

theorem mutual_likes_have_one_match:
  assumes "\<forall>st \<in> set sts. canonical_statement st"
    and "d = foldl exec (fresh_db ps) sts" and "has_like a b d" and "has_like b a d"
  shows "\<exists>m. match_rows_of a b d = [m] \<and> user1_id m = min a b \<and> user2_id m = max a b"
proof -
  from inv_foldl[OF inv_fresh assms(1), of ps] assms(2) have "pipeline_inv d" by simp
  from inv_mutual_match[OF this assms(3,4)] show ?thesis .
qed

theorem mutual_likes_have_one_match_witness:
  "canonical_statement (InsertLike 10 20 False) \<and> canonical_statement (InsertMatch 10 20) \<and>
   canonical_statement (UpsertLike False 20 10 True) \<and>
   has_like 10 20 (foldl exec (fresh_db ann_bob)
      [InsertLike 10 20 False, InsertMatch 10 20, UpsertLike False 20 10 True]) \<and>
   has_like 20 10 (foldl exec (fresh_db ann_bob)
      [InsertLike 10 20 False, InsertMatch 10 20, UpsertLike False 20 10 True]) \<and>
   (\<exists>m. match_rows_of 10 20 (foldl exec (fresh_db ann_bob)
           [InsertLike 10 20 False, InsertMatch 10 20, UpsertLike False 20 10 True]) = [m] \<and>
        user1_id m = 10 \<and> user2_id m = 20)"
proof -
  let ?sts = "[InsertLike 10 20 False, InsertMatch 10 20, UpsertLike False 20 10 True]"
  let ?d = "foldl exec (fresh_db ann_bob) ?sts"
  have c: "\<forall>st \<in> set ?sts. canonical_statement st" by simp
  have l: "likes ?d =
      [\<lparr>like_id = 0, liker_id = 10, liked_id = 20, is_super_like = False\<rparr>,
       \<lparr>like_id = 5, liker_id = 20, liked_id = 10, is_super_like = True\<rparr>]"
    by (simp add: direct_match_insert_def run_defs)
  have h1: "has_like 10 20 ?d" unfolding has_like_def l by simp
  have h2: "has_like 20 10 ?d" unfolding has_like_def l by simp
  from mutual_likes_have_one_match[OF c refl h1 h2] c h1 h2 show ?thesis by simp
qed

subsection \<open>Idempotence of the match deriver\<close>

text \<open>
  C2. When the mutual-like condition holds and \<open>create_match_on_mutual_like\<close> has run
  once without error, running it again for a like row of the same unordered pair, in
  either direction, returns the database unchanged and without error: the match insert
  is the conflict no-op. If the rows of \<open>matches\<close> were canonical and pairwise distinct
  before, the pair has exactly one row afterwards.
\<close>

theorem match_deriver_idempotent:
  assumes mutual: "\<exists>l \<in> set (likes d). liker_id l = liked_id new \<and> liked_id l = liker_id new"
    and first: "create_match_on_mutual_like new d = Inr d1"
    and pair: "(liker_id new2 = liker_id new \<and> liked_id new2 = liked_id new) \<or>
               (liker_id new2 = liked_id new \<and> liked_id new2 = liker_id new)"
  shows "create_match_on_mutual_like new2 d1 = Inr d1 \<and>
    (matches_canonical d \<longrightarrow>
       length (match_rows_of (liker_id new) (liked_id new) d1) = 1)"
proof -
  let ?a = "liker_id new" and ?b = "liked_id new"
  from create_match_reciprocal[OF first mutual]
  have mc: "match_conflict (min ?a ?b) (max ?a ?b) d1" .
  from pair have mm: "min (liker_id new2) (liked_id new2) = min ?a ?b"
    "max (liker_id new2) (liked_id new2) = max ?a ?b"
    by (auto simp: min_def max_def)
  have again: "create_match_on_mutual_like new2 d1 = Inr d1"
    unfolding create_match_on_mutual_like_def mm
    using insert_match_conflict[OF mc] by simp
  have "length (match_rows_of ?a ?b d1) = 1" if "matches_canonical d"
  proof -
    from create_match_canonical[OF that first] have "matches_canonical d1" .
    from canonical_pair_rows[OF this mc] show ?thesis by auto
  qed
  with again show ?thesis by simp
qed

theorem match_deriver_idempotent_witness:
  "create_match_on_mutual_like second_like_row before_match = Inr after_match \<and>
   create_match_on_mutual_like second_like_row after_match = Inr after_match \<and>
   create_match_on_mutual_like
     \<lparr>like_id = 0, liker_id = 10, liked_id = 20, is_super_like = False\<rparr> after_match =
     Inr after_match \<and>
   matches after_match = [\<lparr>match_id = 3, user1_id = 10, user2_id = 20\<rparr>]"
proof -
  let ?n0 = "\<lparr>like_id = 0, liker_id = 10, liked_id = 20, is_super_like = False\<rparr>"
  have mutual: "\<exists>l \<in> set (likes before_match).
      liker_id l = liked_id second_like_row \<and> liked_id l = liker_id second_like_row"
    by (simp add: before_match_def second_like_row_def)
  have first: "create_match_on_mutual_like second_like_row before_match = Inr after_match"
    by (simp add: before_match_def after_match_def second_like_row_def run_defs)
  have same: "(liker_id second_like_row = liker_id second_like_row \<and>
                liked_id second_like_row = liked_id second_like_row) \<or>
              (liker_id second_like_row = liked_id second_like_row \<and>
                liked_id second_like_row = liker_id second_like_row)" by simp
  have other: "(liker_id ?n0 = liker_id second_like_row \<and>
                liked_id ?n0 = liked_id second_like_row) \<or>
              (liker_id ?n0 = liked_id second_like_row \<and>
                liked_id ?n0 = liker_id second_like_row)"
    by (simp add: second_like_row_def)
  have m: "matches after_match = [\<lparr>match_id = 3, user1_id = 10, user2_id = 20\<rparr>]"
    by (simp add: after_match_def)
  from match_deriver_idempotent[OF mutual first same]
    match_deriver_idempotent[OF mutual first other] first m
  show ?thesis by blast
qed

subsection \<open>A like without its reciprocal\<close>

text \<open>
  Against C3 without the condition that liker and liked differ: Bob likes himself in the
  fresh database. No like of Bob for Bob existed before the insert, yet the insert
  creates a match row and three notifications.
\<close>

theorem first_like_counterexample:
  "\<not> has_like 20 20 (fresh_db ann_bob) \<and>
   matches (exec (fresh_db ann_bob) (InsertLike 20 20 True)) =
     [\<lparr>match_id = 1, user1_id = 20, user2_id = 20\<rparr>] \<and>
   length (notifications (exec (fresh_db ann_bob) (InsertLike 20 20 True))) = 3"
  by (simp add: has_like_def run_defs)

text \<open>
  C3. For a committed like insert of \<open>a\<close> for \<open>b\<close> with flag \<open>s\<close>, where \<open>a\<close> and \<open>b\<close>
  differ and no like of \<open>b\<close> for \<open>a\<close> is in the table, \<open>matches\<close> is unchanged and exactly
  one notification is added: addressed to \<open>b\<close>, of type \<open>super_like\<close> if \<open>s\<close> and \<open>like\<close>
  otherwise, with the title of that type, a message that starts with the first name of
  \<open>a\<close>, and a payload with the id of \<open>a\<close> and the id of the like.
\<close>

theorem first_like_notifies_liked:
  assumes "a \<noteq> b" and "\<not> has_like b a d" and "insert_like a b s d = Inr d'"
  shows "matches d' = matches d \<and>
    likes d' = likes d @ [\<lparr>like_id = next_uuid d, liker_id = a, liked_id = b, is_super_like = s\<rparr>] \<and>
    (\<exists>name. select_first_name d a = Some name \<and>
       notifications d' = notifications d @
         [\<lparr>n_id = next_uuid d + 1, n_user_id = b,
           n_type = (if s then ''super_like'' else ''like''),
           n_title = (if s then ''Super Like!'' else ''New Like!''),
           n_message = name @ (if s then '' super liked you!'' else '' liked you!''),
           n_data = [(''user_id'', a), (''like_id'', next_uuid d)],
           n_read = False\<rparr>])"
proof -
  let ?new = "\<lparr>like_id = next_uuid d, liker_id = a, liked_id = b, is_super_like = s\<rparr>"
  let ?d1 = "d\<lparr>likes := likes d @ [?new], next_uuid := next_uuid d + 1\<rparr>"
  from insert_like_Inr[OF assms(3)] obtain d2 where
    cm: "create_match_on_mutual_like ?new ?d1 = Inr d2"
    and cl: "create_like_notification ?new d2 = Inr d'" by blast
  from assms(1,2) have "\<not> (\<exists>l \<in> set (likes ?d1). liker_id l = liked_id ?new \<and> liked_id l = liker_id ?new)"
    unfolding has_like_def by auto
  then have "create_match_on_mutual_like ?new ?d1 = Inr ?d1"
    unfolding create_match_on_mutual_like_def by (simp only: if_False)
  with cm have d2: "d2 = ?d1" by simp
  from create_like_notification_Inr[OF cl] d2 show ?thesis
    by (auto simp: select_first_name_def)
qed

theorem first_like_notifies_liked_witness:
  "(10::nat) \<noteq> 20 \<and> \<not> has_like 20 10 (fresh_db ann_bob) \<and>
   insert_like 10 20 True (fresh_db ann_bob) =
     Inr \<lparr>profiles = ann_bob,
          likes = [\<lparr>like_id = 0, liker_id = 10, liked_id = 20, is_super_like = True\<rparr>],
          matches = [], messages = [],
          notifications =
            [\<lparr>n_id = 1, n_user_id = 20, n_type = ''super_like'', n_title = ''Super Like!'',
              n_message = ''Ann super liked you!'',
              n_data = [(''user_id'', 10), (''like_id'', 0)], n_read = False\<rparr>],
          next_uuid = 2\<rparr>"
proof -
  have a: "(10::nat) \<noteq> 20" by simp
  have h: "\<not> has_like 20 10 (fresh_db ann_bob)" by (simp add: has_like_def fresh_db_def)
  have r: "insert_like 10 20 True (fresh_db ann_bob) =
     Inr \<lparr>profiles = ann_bob,
          likes = [\<lparr>like_id = 0, liker_id = 10, liked_id = 20, is_super_like = True\<rparr>],
          matches = [], messages = [],
          notifications =
            [\<lparr>n_id = 1, n_user_id = 20, n_type = ''super_like'', n_title = ''Super Like!'',
              n_message = ''Ann super liked you!'',
              n_data = [(''user_id'', 10), (''like_id'', 0)], n_read = False\<rparr>],
          next_uuid = 2\<rparr>"
    by (simp add: run_defs)
  from first_like_notifies_liked[OF a h r] a h r show ?thesis by simp
qed

subsection \<open>Notifications of a match\<close>

text \<open>
  C4. When \<open>insert_match\<close> adds a row for \<open>u1\<close> and \<open>u2\<close> (no row with the pair exists
  and the statement commits), the row is followed by exactly two notifications of type
  \<open>match\<close>: one to \<open>u1\<close> whose message names \<open>u2\<close>, one to \<open>u2\<close> whose message names
  \<open>u1\<close>, each with the id of the match and the id of the other user in its payload.
\<close>

theorem match_insert_notifies_both:
  assumes "\<not> match_conflict u1 u2 d" and "insert_match u1 u2 d = Inr d'"
  shows "\<exists>name1 name2.
     select_first_name d u1 = Some name1 \<and> select_first_name d u2 = Some name2 \<and>
     matches d' = matches d @ [\<lparr>match_id = next_uuid d, user1_id = u1, user2_id = u2\<rparr>] \<and>
     notifications d' = notifications d @
       [\<lparr>n_id = next_uuid d + 1, n_user_id = u1, n_type = ''match'',
         n_title = match_title,
         n_message = ''You and '' @ name2 @ '' liked each other!'',
         n_data = [(''match_id'', next_uuid d), (''other_user_id'', u2)],
         n_read = False\<rparr>,
        \<lparr>n_id = next_uuid d + 2, n_user_id = u2, n_type = ''match'',
         n_title = match_title,
         n_message = ''You and '' @ name1 @ '' liked each other!'',
         n_data = [(''match_id'', next_uuid d), (''other_user_id'', u1)],
         n_read = False\<rparr>]"
proof -
  from insert_match_new[OF assms(2,1)] obtain name1 name2 where
    "select_first_name d u1 = Some name1" "select_first_name d u2 = Some name2"
    and d': "d' = d\<lparr>matches := matches d @ [\<lparr>match_id = next_uuid d, user1_id = u1, user2_id = u2\<rparr>],
            notifications := notifications d @
             [\<lparr>n_id = next_uuid d + 1, n_user_id = u1, n_type = ''match'',
               n_title = match_title,
               n_message = ''You and '' @ name2 @ '' liked each other!'',
               n_data = [(''match_id'', next_uuid d), (''other_user_id'', u2)],
               n_read = False\<rparr>,
              \<lparr>n_id = next_uuid d + 2, n_user_id = u2, n_type = ''match'',
               n_title = match_title,
               n_message = ''You and '' @ name1 @ '' liked each other!'',
               n_data = [(''match_id'', next_uuid d), (''other_user_id'', u1)],
               n_read = False\<rparr>],
            next_uuid := next_uuid d + 3\<rparr>" by blast
  then show ?thesis by simp
qed

theorem match_insert_notifies_both_witness:
  "\<not> match_conflict 10 20 (fresh_db ann_bob) \<and>
   insert_match 10 20 (fresh_db ann_bob) =
     Inr \<lparr>profiles = ann_bob, likes = [],
          matches = [\<lparr>match_id = 0, user1_id = 10, user2_id = 20\<rparr>], messages = [],
          notifications =
            [\<lparr>n_id = 1, n_user_id = 10, n_type = ''match'', n_title = match_title,
              n_message = ''You and Bob liked each other!'',
              n_data = [(''match_id'', 0), (''other_user_id'', 20)], n_read = False\<rparr>,
             \<lparr>n_id = 2, n_user_id = 20, n_type = ''match'', n_title = match_title,
              n_message = ''You and Ann liked each other!'',
              n_data = [(''match_id'', 0), (''other_user_id'', 10)], n_read = False\<rparr>],
          next_uuid = 3\<rparr>"
proof -
  have c: "\<not> match_conflict 10 20 (fresh_db ann_bob)"
    by (simp add: match_conflict_def fresh_db_def)
  have r: "insert_match 10 20 (fresh_db ann_bob) =
     Inr \<lparr>profiles = ann_bob, likes = [],
          matches = [\<lparr>match_id = 0, user1_id = 10, user2_id = 20\<rparr>], messages = [],
          notifications =
            [\<lparr>n_id = 1, n_user_id = 10, n_type = ''match'', n_title = match_title,
              n_message = ''You and Bob liked each other!'',
              n_data = [(''match_id'', 0), (''other_user_id'', 20)], n_read = False\<rparr>,
             \<lparr>n_id = 2, n_user_id = 20, n_type = ''match'', n_title = match_title,
              n_message = ''You and Ann liked each other!'',
              n_data = [(''match_id'', 0), (''other_user_id'', 10)], n_read = False\<rparr>],
          next_uuid = 3\<rparr>"
    by (simp add: run_defs)
  from match_insert_notifies_both[OF c r] c r show ?thesis by simp
qed

subsection \<open>Notification of a message\<close>

text \<open>
  Against C5 for a match whose two participants are the same profile: after Ann liked
  herself the match with id 1 joins Ann and Ann. A message of Ann in that match is
  notified to Ann, the sender.
\<close>

theorem message_to_self_match_counterexample:
  "matches self_liked = [\<lparr>match_id = 1, user1_id = 10, user2_id = 10\<rparr>] \<and>
   insert_message 1 10 ''hi'' self_liked =
     Inr (self_liked\<lparr>
       messages := [\<lparr>message_id = 5, msg_match_id = 1, sender_id = 10, content = ''hi''\<rparr>],
       notifications := notifications self_liked @
         [\<lparr>n_id = 6, n_user_id = 10, n_type = ''message'', n_title = ''New Message'',
           n_message = ''Ann: hi'',
           n_data = [(''match_id'', 1), (''sender_id'', 10), (''message_id'', 5)],
           n_read = False\<rparr>],
       next_uuid := 7\<rparr>)"
  by (simp add: self_liked_eq run_defs)

text \<open>
  C5. For a committed message insert into a match with two distinct participants, sent
  by one of them, exactly one notification is added: of type \<open>message\<close>, addressed to a
  participant of the match other than the sender, with the text \<open>name: \<close> followed by
  the first 50 characters of the content and by \<open>...\<close> exactly when the content is
  longer than 50 characters; a content of at most 50 characters is reproduced whole.
\<close>

theorem message_insert_notifies_other:
  assumes "find (\<lambda>m. match_id m = mid) (matches d) = Some m"
    and "sender = user1_id m \<or> sender = user2_id m"
    and "user1_id m \<noteq> user2_id m"
    and "insert_message mid sender c d = Inr d'"
  shows "\<exists>name n.
     select_first_name d sender = Some name \<and>
     notifications d' = notifications d @ [n] \<and>
     n_type n = ''message'' \<and>
     n_user_id n \<in> {user1_id m, user2_id m} \<and> n_user_id n \<noteq> sender \<and>
     n_message n = name @ '': '' @ take 50 c @ (if length c > 50 then ''...'' else '''') \<and>
     (length c \<le> 50 \<longrightarrow> n_message n = name @ '': '' @ c)"
proof -
  let ?new = "\<lparr>message_id = next_uuid d, msg_match_id = mid, sender_id = sender, content = c\<rparr>"
  let ?d1 = "d\<lparr>messages := messages d @ [?new], next_uuid := next_uuid d + 1\<rparr>"
  from create_message_notification_Inr[OF insert_message_Inr[OF assms(4)]]
  obtain r name where r: "message_receiver ?new ?d1 = Some r"
    and name: "select_first_name ?d1 sender = Some name"
    and d': "d' = ?d1\<lparr>notifications := notifications ?d1 @
             [\<lparr>n_id = next_uuid ?d1, n_user_id = r, n_type = ''message'',
               n_title = ''New Message'',
               n_message = name @ '': '' @ take 50 (content ?new) @
                  (if length (content ?new) > 50 then ''...'' else ''''),
               n_data = [(''match_id'', msg_match_id ?new), (''sender_id'', sender_id ?new),
                         (''message_id'', message_id ?new)],
               n_read = False\<rparr>],
            next_uuid := next_uuid ?d1 + 1\<rparr>"
    by auto
  from r assms(1) have r': "r = (if user1_id m = sender then user2_id m else user1_id m)"
    by (simp add: message_receiver_def split: if_splits)
  from name have name': "select_first_name d sender = Some name"
    by (simp add: select_first_name_def)
  from r' assms(2,3) have "r \<in> {user1_id m, user2_id m}" "r \<noteq> sender" by auto
  with name' d' show ?thesis by simp
qed

theorem message_insert_notifies_other_witness:
  "find (\<lambda>m. match_id m = 3) (matches matched) = Some \<lparr>match_id = 3, user1_id = 10, user2_id = 20\<rparr> \<and>
   insert_message 3 10
      ''Hello there, this is a moderately long greeting that exceeds fifty characters'' matched =
     Inr (matched\<lparr>
       messages := [\<lparr>message_id = 7, msg_match_id = 3, sender_id = 10, content =
         ''Hello there, this is a moderately long greeting that exceeds fifty characters''\<rparr>],
       notifications := notifications matched @
         [\<lparr>n_id = 8, n_user_id = 20, n_type = ''message'', n_title = ''New Message'',
           n_message = ''Ann: Hello there, this is a moderately long greeting th...'',
           n_data = [(''match_id'', 3), (''sender_id'', 10), (''message_id'', 7)],
           n_read = False\<rparr>],
       next_uuid := 9\<rparr>)"
proof -
  have f: "find (\<lambda>m. match_id m = 3) (matches matched) =
      Some \<lparr>match_id = 3, user1_id = 10, user2_id = 20\<rparr>"
    by (simp add: matched_eq)
  have p: "10 = user1_id \<lparr>match_id = 3, user1_id = 10, user2_id = 20\<rparr> \<or>
      10 = user2_id \<lparr>match_id = 3, user1_id = 10, user2_id = 20\<rparr>" by simp
  have q: "user1_id \<lparr>match_id = 3, user1_id = 10, user2_id = 20\<rparr> \<noteq>
      user2_id \<lparr>match_id = 3, user1_id = 10, user2_id = (20::nat)\<rparr>" by simp
  have r: "insert_message 3 10
      ''Hello there, this is a moderately long greeting that exceeds fifty characters'' matched =
     Inr (matched\<lparr>
       messages := [\<lparr>message_id = 7, msg_match_id = 3, sender_id = 10, content =
         ''Hello there, this is a moderately long greeting that exceeds fifty characters''\<rparr>],
       notifications := notifications matched @
         [\<lparr>n_id = 8, n_user_id = 20, n_type = ''message'', n_title = ''New Message'',
           n_message = ''Ann: Hello there, this is a moderately long greeting th...'',
           n_data = [(''match_id'', 3), (''sender_id'', 10), (''message_id'', 7)],
           n_read = False\<rparr>],
       next_uuid := 9\<rparr>)"
    by (simp add: matched_eq ann_bob_cy_def run_defs)
  from message_insert_notifies_other[OF f p q r] f r show ?thesis by simp
qed

subsection \<open>A message from outside the match\<close>

text \<open>
  Against C6 with no notification at all: Cy is no participant of the match of Ann and
  Bob. A message row of Cy in that match adds a notification, addressed to Ann.
\<close>

theorem outsider_message_counterexample:
  "matches matched = [\<lparr>match_id = 3, user1_id = 10, user2_id = 20\<rparr>] \<and>
   insert_message 3 30 ''yo'' matched =
     Inr (matched\<lparr>
       messages := [\<lparr>message_id = 7, msg_match_id = 3, sender_id = 30, content = ''yo''\<rparr>],
       notifications := notifications matched @
         [\<lparr>n_id = 8, n_user_id = 10, n_type = ''message'', n_title = ''New Message'',
           n_message = ''Cy: yo'',
           n_data = [(''match_id'', 3), (''sender_id'', 30), (''message_id'', 7)],
           n_read = False\<rparr>],
       next_uuid := 9\<rparr>)"
  by (simp add: matched_eq ann_bob_cy_def run_defs)

text \<open>
  C6. For a committed message insert whose sender is neither \<open>user1_id\<close> nor
  \<open>user2_id\<close> of the match, the trigger takes the \<open>ELSE\<close> branch of its receiver choice
  and adds exactly one notification, addressed to \<open>user1_id\<close> of the match. (Only the
  row-level insert policy on \<open>messages\<close> keeps such rows out.)
\<close>

theorem outsider_message_notifies_user1:
  assumes "find (\<lambda>m. match_id m = mid) (matches d) = Some m"
    and "sender \<noteq> user1_id m" and "sender \<noteq> user2_id m"
    and "insert_message mid sender c d = Inr d'"
  shows "\<exists>name.
     select_first_name d sender = Some name \<and>
     notifications d' = notifications d @
       [\<lparr>n_id = next_uuid d + 1, n_user_id = user1_id m, n_type = ''message'',
         n_title = ''New Message'',
         n_message = name @ '': '' @ take 50 c @ (if length c > 50 then ''...'' else ''''),
         n_data = [(''match_id'', mid), (''sender_id'', sender), (''message_id'', next_uuid d)],
         n_read = False\<rparr>]"
proof -
  let ?new = "\<lparr>message_id = next_uuid d, msg_match_id = mid, sender_id = sender, content = c\<rparr>"
  let ?d1 = "d\<lparr>messages := messages d @ [?new], next_uuid := next_uuid d + 1\<rparr>"
  from create_message_notification_Inr[OF insert_message_Inr[OF assms(4)]]
  obtain r name where r: "message_receiver ?new ?d1 = Some r"
    and name: "select_first_name ?d1 sender = Some name"
    and d': "d' = ?d1\<lparr>notifications := notifications ?d1 @
             [\<lparr>n_id = next_uuid ?d1, n_user_id = r, n_type = ''message'',
               n_title = ''New Message'',
               n_message = name @ '': '' @ take 50 (content ?new) @
                  (if length (content ?new) > 50 then ''...'' else ''''),
               n_data = [(''match_id'', msg_match_id ?new), (''sender_id'', sender_id ?new),
                         (''message_id'', message_id ?new)],
               n_read = False\<rparr>],
            next_uuid := next_uuid ?d1 + 1\<rparr>"
    by auto
  from r assms(1,2) have r': "r = user1_id m"
    by (auto simp: message_receiver_def split: if_splits)
  from name have name': "select_first_name d sender = Some name"
    by (simp add: select_first_name_def)
  with r' d' show ?thesis by simp
qed

theorem outsider_message_notifies_user1_witness:
  "find (\<lambda>m. match_id m = 3) (matches matched) = Some \<lparr>match_id = 3, user1_id = 10, user2_id = 20\<rparr> \<and>
   n_user_id (last (notifications (exec matched (InsertMessage 3 30 ''yo'')))) = 10"
proof -
  have f: "find (\<lambda>m. match_id m = 3) (matches matched) =
      Some \<lparr>match_id = 3, user1_id = 10, user2_id = 20\<rparr>"
    by (simp add: matched_eq)
  have p: "30 \<noteq> user1_id \<lparr>match_id = 3, user1_id = 10, user2_id = (20::nat)\<rparr>" by simp
  have q: "30 \<noteq> user2_id \<lparr>match_id = 3, user1_id = (10::nat), user2_id = 20\<rparr>" by simp
  have r: "insert_message 3 30 ''yo'' matched =
     Inr (matched\<lparr>
       messages := [\<lparr>message_id = 7, msg_match_id = 3, sender_id = 30, content = ''yo''\<rparr>],
       notifications := notifications matched @
         [\<lparr>n_id = 8, n_user_id = 10, n_type = ''message'', n_title = ''New Message'',
           n_message = ''Cy: yo'',
           n_data = [(''match_id'', 3), (''sender_id'', 30), (''message_id'', 7)],
           n_read = False\<rparr>],
       next_uuid := 9\<rparr>)"
    by (simp add: matched_eq ann_bob_cy_def run_defs)
  from outsider_message_notifies_user1[OF f p q r] obtain name where
    "notifications (matched\<lparr>
       messages := [\<lparr>message_id = 7, msg_match_id = 3, sender_id = 30, content = ''yo''\<rparr>],
       notifications := notifications matched @
         [\<lparr>n_id = 8, n_user_id = 10, n_type = ''message'', n_title = ''New Message'',
           n_message = ''Cy: yo'',
           n_data = [(''match_id'', 3), (''sender_id'', 30), (''message_id'', 7)],
           n_read = False\<rparr>],
       next_uuid := 9\<rparr>) = notifications matched @
       [\<lparr>n_id = next_uuid matched + 1, n_user_id = user1_id \<lparr>match_id = 3, user1_id = 10, user2_id = 20\<rparr>, n_type = ''message'',
         n_title = ''New Message'',
         n_message = name @ '': '' @ take 50 ''yo'' @ (if length ''yo'' > 50 then ''...'' else ''''),
         n_data = [(''match_id'', 3), (''sender_id'', 30), (''message_id'', next_uuid matched)],
         n_read = False\<rparr>]" by blast
  then have "n_user_id (last (notifications (exec matched (InsertMessage 3 30 ''yo'')))) = 10"
    by (simp add: r)
  with f show ?thesis by simp
qed

subsection \<open>An actor whose name does not resolve\<close>

text \<open>
  Against C7 with a notification under a placeholder name: no profile has id 30. The
  like of 30 for Ann is rejected by the foreign key of \<open>liker_id\<close>; the insert is
  aborted, the database is as it was and no notification is added.
\<close>

theorem unresolved_name_counterexample:
  "select_first_name (fresh_db ann_bob) 30 = None \<and>
   insert_like 30 10 False (fresh_db ann_bob) = Inl ForeignKeyViolation \<and>
   exec (fresh_db ann_bob) (InsertLike 30 10 False) = fresh_db ann_bob \<and>
   notifications (exec (fresh_db ann_bob) (InsertLike 30 10 False)) = []"
  by (simp add: run_defs)

text \<open>
  C7. A like, a message or a match whose actor has no profile row is not inserted: the
  like insert fails with the foreign-key violation (the unique violation when the pair is
  already there), the message insert and the insert of a new match row fail with the
  foreign-key violation, before any notification is made. For every like, message or new
  match row that is inserted, the first names of the actors resolve and the
  notifications added last carry those names; no placeholder takes their place.
\<close>

theorem actor_without_profile_is_rejected:
  "(\<not> profile_exists d a \<longrightarrow>
      insert_like a b s d =
        (if has_like a b d then Inl UniqueViolation else Inl ForeignKeyViolation)) \<and>
   (\<not> profile_exists d sender \<longrightarrow> insert_message mid sender c d = Inl ForeignKeyViolation) \<and>
   (\<not> match_conflict u1 u2 d \<and> (\<not> profile_exists d u1 \<or> \<not> profile_exists d u2) \<longrightarrow>
      insert_match u1 u2 d = Inl ForeignKeyViolation) \<and>
   (\<forall>d'. insert_like a b s d = Inr d' \<longrightarrow>
      (\<exists>name. select_first_name d a = Some name \<and>
         n_message (last (notifications d')) =
           name @ (if s then '' super liked you!'' else '' liked you!''))) \<and>
   (\<forall>d'. insert_message mid sender c d = Inr d' \<longrightarrow>
      (\<exists>name. select_first_name d sender = Some name \<and>
         n_message (last (notifications d')) =
           name @ '': '' @ take 50 c @ (if length c > 50 then ''...'' else []))) \<and>
   (\<forall>d'. \<not> match_conflict u1 u2 d \<and> insert_match u1 u2 d = Inr d' \<longrightarrow>
      (\<exists>name1 name2. select_first_name d u1 = Some name1 \<and>
         select_first_name d u2 = Some name2 \<and>
         map n_message (drop (length (notifications d)) (notifications d')) =
           [''You and '' @ name2 @ '' liked each other!'',
            ''You and '' @ name1 @ '' liked each other!'']))"
proof (intro conjI impI allI)
  assume "\<not> profile_exists d a"
  then show "insert_like a b s d =
      (if has_like a b d then Inl UniqueViolation else Inl ForeignKeyViolation)"
    by (simp add: insert_like_def has_like_def)
next
  assume "\<not> profile_exists d sender"
  then show "insert_message mid sender c d = Inl ForeignKeyViolation"
    by (simp add: insert_message_def)
next
  assume "\<not> match_conflict u1 u2 d \<and> (\<not> profile_exists d u1 \<or> \<not> profile_exists d u2)"
  then show "insert_match u1 u2 d = Inl ForeignKeyViolation"
    by (auto simp: insert_match_def)
next
  fix d' assume ins: "insert_like a b s d = Inr d'"
  let ?new = "\<lparr>like_id = next_uuid d, liker_id = a, liked_id = b, is_super_like = s\<rparr>"
  from insert_like_Inr[OF ins] obtain d2 where
    cm: "create_match_on_mutual_like ?new
           (d\<lparr>likes := likes d @ [?new], next_uuid := next_uuid d + 1\<rparr>) = Inr d2"
    and cl: "create_like_notification ?new d2 = Inr d'" by blast
  have p: "profiles d2 = profiles d"
    using create_match_on_mutual_like_frame(1)[OF cm] by simp
  from create_like_notification_Inr[OF cl] obtain name where
    "select_first_name d2 a = Some name"
    and "n_message (last (notifications d')) =
      name @ (if s then '' super liked you!'' else '' liked you!'')"
    by auto
  with p show "\<exists>name. select_first_name d a = Some name \<and>
      n_message (last (notifications d')) =
        name @ (if s then '' super liked you!'' else '' liked you!'')"
    by (auto simp: select_first_name_def)
next
  fix d' assume ins: "insert_message mid sender c d = Inr d'"
  from create_message_notification_Inr[OF insert_message_Inr[OF ins]]
  show "\<exists>name. select_first_name d sender = Some name \<and>
      n_message (last (notifications d')) =
        name @ '': '' @ take 50 c @ (if length c > 50 then ''...'' else [])"
    by (auto simp: select_first_name_def)
next
  fix d' assume "\<not> match_conflict u1 u2 d \<and> insert_match u1 u2 d = Inr d'"
  then have "\<not> match_conflict u1 u2 d" "insert_match u1 u2 d = Inr d'" by simp_all
  from insert_match_new[OF this(2,1)]
  show "\<exists>name1 name2. select_first_name d u1 = Some name1 \<and>
      select_first_name d u2 = Some name2 \<and>
      map n_message (drop (length (notifications d)) (notifications d')) =
        [''You and '' @ name2 @ '' liked each other!'',
         ''You and '' @ name1 @ '' liked each other!'']"
    by auto
qed

theorem actor_without_profile_is_rejected_witness:
  "\<not> profile_exists (fresh_db ann_bob) 30 \<and>
   insert_like 30 10 True (fresh_db ann_bob) = Inl ForeignKeyViolation \<and>
   \<not> profile_exists matched 40 \<and>
   insert_message 3 40 ''hi'' matched = Inl ForeignKeyViolation \<and>
   \<not> match_conflict 10 30 (fresh_db ann_bob) \<and>
   insert_match 10 30 (fresh_db ann_bob) = Inl ForeignKeyViolation \<and>
   insert_like 10 20 True (fresh_db ann_bob) =
     Inr \<lparr>profiles = ann_bob,
          likes = [\<lparr>like_id = 0, liker_id = 10, liked_id = 20, is_super_like = True\<rparr>],
          matches = [], messages = [],
          notifications =
            [\<lparr>n_id = 1, n_user_id = 20, n_type = ''super_like'', n_title = ''Super Like!'',
              n_message = ''Ann super liked you!'',
              n_data = [(''user_id'', 10), (''like_id'', 0)], n_read = False\<rparr>],
          next_uuid = 2\<rparr> \<and>
   select_first_name (fresh_db ann_bob) 10 = Some ''Ann''"
proof -
  have p: "\<not> profile_exists (fresh_db ann_bob) 30" by (simp add: run_defs)
  have q: "\<not> profile_exists matched 40"
    by (simp add: matched_eq ann_bob_cy_def run_defs)
  have c: "\<not> match_conflict 10 30 (fresh_db ann_bob)" by (simp add: run_defs)
  have h: "\<not> has_like 30 10 (fresh_db ann_bob)" by (simp add: has_like_def fresh_db_def)
  note t1 = actor_without_profile_is_rejected[of "fresh_db ann_bob" 30 10 True 40 3 "''hi''" 10 30]
  note t2 = actor_without_profile_is_rejected[of matched 30 10 True 40 3 "''hi''" 10 30]
  from t1 p h have r1: "insert_like 30 10 True (fresh_db ann_bob) = Inl ForeignKeyViolation"
    by simp
  from t2 q have r2: "insert_message 3 40 ''hi'' matched = Inl ForeignKeyViolation"
    by blast
  from t1 p c have r3: "insert_match 10 30 (fresh_db ann_bob) = Inl ForeignKeyViolation"
    by blast
  have r4: "insert_like 10 20 True (fresh_db ann_bob) =
     Inr \<lparr>profiles = ann_bob,
          likes = [\<lparr>like_id = 0, liker_id = 10, liked_id = 20, is_super_like = True\<rparr>],
          matches = [], messages = [],
          notifications =
            [\<lparr>n_id = 1, n_user_id = 20, n_type = ''super_like'', n_title = ''Super Like!'',
              n_message = ''Ann super liked you!'',
              n_data = [(''user_id'', 10), (''like_id'', 0)], n_read = False\<rparr>],
          next_uuid = 2\<rparr>"
    by (simp add: run_defs)
  note t3 = actor_without_profile_is_rejected[of "fresh_db ann_bob" 10 20 True 40 3 "''hi''" 10 30]
  from t3 r4 obtain name where
    n: "select_first_name (fresh_db ann_bob) 10 = Some name"
    and "''Ann super liked you!'' = name @ '' super liked you!''"
    by auto
  then have r5: "select_first_name (fresh_db ann_bob) 10 = Some ''Ann''" by simp
  from p q c r1 r2 r3 r4 r5 show ?thesis by blast
qed

subsection \<open>A like of oneself\<close>

text \<open>
  Against C8 with no match row: Ann likes herself in the fresh database, and the insert
  creates the match row of Ann with Ann.
\<close>

theorem self_like_counterexample:
  "\<not> has_like 10 10 (fresh_db ann_bob) \<and>
   matches (fresh_db ann_bob) = [] \<and>
   matches (exec (fresh_db ann_bob) (InsertLike 10 10 False)) =
     [\<lparr>match_id = 1, user1_id = 10, user2_id = 10\<rparr>]"
  by (simp add: has_like_def run_defs)

text \<open>
  C8. For a committed like insert of \<open>a\<close> for \<open>a\<close>, the reciprocity check of the match
  deriver is satisfied by the inserted row itself, since the trigger runs after the
  insert: a match row with \<open>user1_id = user2_id = a\<close> exists afterwards, and it is a new
  row, the only one added, when there was none before.
\<close>

theorem self_like_creates_self_match:
  assumes "insert_like a a s d = Inr d'"
  shows "match_conflict a a d' \<and>
    (\<not> match_conflict a a d \<longrightarrow>
       matches d' = matches d @ [\<lparr>match_id = next_uuid d + 1, user1_id = a, user2_id = a\<rparr>])"
proof -
  let ?new = "\<lparr>like_id = next_uuid d, liker_id = a, liked_id = a, is_super_like = s\<rparr>"
  let ?d1 = "d\<lparr>likes := likes d @ [?new], next_uuid := next_uuid d + 1\<rparr>"
  from insert_like_Inr[OF assms] obtain d2 where
    cm: "create_match_on_mutual_like ?new ?d1 = Inr d2"
    and cl: "create_like_notification ?new d2 = Inr d'" by blast
  have m': "matches d' = matches d2" by (rule create_like_notification_frame(3)[OF cl])
  have "\<exists>l \<in> set (likes ?d1). liker_id l = liked_id ?new \<and> liked_id l = liker_id ?new"
    by (intro bexI[of _ ?new]) simp_all
  with cm have im: "insert_match a a ?d1 = Inr d2"
    unfolding create_match_on_mutual_like_def by (simp split: if_splits)
  from insert_match_grows(2)[OF im] m' have c: "match_conflict a a d'"
    by (simp add: match_conflict_def)
  have "matches d2 = matches d @ [\<lparr>match_id = next_uuid d + 1, user1_id = a, user2_id = a\<rparr>]"
    if "\<not> match_conflict a a d"
  proof -
    from that have "\<not> match_conflict a a ?d1" by (simp add: match_conflict_def)
    with insert_match_matches[OF im] show ?thesis by simp
  qed
  with c m' show ?thesis by simp
qed

theorem self_like_creates_self_match_witness:
  "insert_like 10 10 False (fresh_db ann_bob) = Inr self_liked \<and>
   match_conflict 10 10 self_liked \<and> \<not> match_conflict 10 10 (fresh_db ann_bob) \<and>
   matches self_liked = matches (fresh_db ann_bob) @
     [\<lparr>match_id = next_uuid (fresh_db ann_bob) + 1, user1_id = 10, user2_id = 10\<rparr>]"
proof -
  have r: "insert_like 10 10 False (fresh_db ann_bob) = Inr self_liked"
    by (simp add: self_liked_eq) (simp add: run_defs)
  have n: "\<not> match_conflict 10 10 (fresh_db ann_bob)"
    by (simp add: match_conflict_def fresh_db_def)
  from self_like_creates_self_match[OF r] r n show ?thesis by simp
qed

subsection \<open>Liking the same profile again\<close>

text \<open>
  C9. When the user \<open>a\<close> likes, through \<open>handleLike\<close>, the shown profile \<open>b\<close> that \<open>a\<close>
  has liked already, \<open>matches\<close> and \<open>notifications\<close> are unchanged (no trigger fires), the
  rows of \<open>likes\<close> keep their ids and pairs in the same order (no row is added), and if
  the pairs were distinct before, exactly one row has the pair of \<open>a\<close> and \<open>b\<close>. When
  the update arm is admitted that row carries the new flag; when it is refused the
  database is unchanged.
\<close>

theorem second_like_is_update:
  assumes idx: "currentIndex scr < length (shown scr)"
    and prof: "profile_id (shown scr ! currentIndex scr) = b"
    and ex: "has_like a b d"
    and run: "handleLike upd_ok a True s (scr, d) = (scr', d')"
  shows "matches d' = matches d \<and> notifications d' = notifications d \<and>
    map (\<lambda>l. (like_id l, liker_id l, liked_id l)) (likes d') =
      map (\<lambda>l. (like_id l, liker_id l, liked_id l)) (likes d) \<and>
    (distinct (map (\<lambda>l. (liker_id l, liked_id l)) (likes d)) \<longrightarrow>
       length (filter (\<lambda>l. liker_id l = a \<and> liked_id l = b) (likes d')) = 1) \<and>
    (upd_ok \<longrightarrow> (\<forall>l \<in> set (likes d'). liker_id l = a \<and> liked_id l = b \<longrightarrow> is_super_like l = s)) \<and>
    (\<not> upd_ok \<longrightarrow> d' = d)"
proof -
  let ?g = "\<lambda>l. if liker_id l = a \<and> liked_id l = b then l\<lparr>is_super_like := s\<rparr> else l"
  from handleLike_like[OF idx, of upd_ok a s d] prof run
  have "(case upsert_like upd_ok a b s d of
           Inl e \<Rightarrow> (scr, d)
         | Inr d2 \<Rightarrow> (scr\<lparr>currentIndex := currentIndex scr + 1\<rparr>, d2)) = (scr', d')"
    by simp
  then have cases: "(upd_ok \<and> d' = d\<lparr>likes := map ?g (likes d)\<rparr>) \<or> (\<not> upd_ok \<and> d' = d)"
    unfolding upsert_like_existing[OF ex] by (cases upd_ok) simp_all
  have frame: "matches d' = matches d \<and> notifications d' = notifications d"
    using cases by auto
  have lk: "likes d' = map ?g (likes d) \<or> likes d' = likes d"
    using cases by auto
  have keys: "map (\<lambda>l. (like_id l, liker_id l, liked_id l)) (likes d') =
      map (\<lambda>l. (like_id l, liker_id l, liked_id l)) (likes d)"
  proof (rule disjE[OF lk])
    assume "likes d' = map ?g (likes d)"
    then show ?thesis by (simp only: upsert_update_pairs)
  next
    assume "likes d' = likes d"
    then show ?thesis by (simp only:)
  qed
  have one: "length (filter (\<lambda>l. liker_id l = a \<and> liked_id l = b) (likes d')) = 1"
    if dist: "distinct (map (\<lambda>l. (liker_id l, liked_id l)) (likes d))"
  proof -
    from ex have "(a, b) \<in> set (map (\<lambda>l. (liker_id l, liked_id l)) (likes d))"
      unfolding has_like_def by force
    from distinct_count_one[OF dist this] show ?thesis
      unfolding count_pair_rows same_pairs_project[OF keys] .
  qed
  have flags: "is_super_like l = s"
    if "upd_ok" "l \<in> set (likes d')" "liker_id l = a \<and> liked_id l = b" for l
  proof -
    from that(1) cases have "likes d' = map ?g (likes d)" by auto
    with that(2) have "l \<in> set (map ?g (likes d))" by (simp only:)
    from upsert_update_flags[OF this that(3)] show ?thesis .
  qed
  have unchanged: "d' = d" if "\<not> upd_ok" using that cases by blast
  from frame keys one flags unchanged show ?thesis by blast
qed

theorem second_like_is_update_witness:
  "has_like 10 20 matched \<and>
   handleLike True 10 True True
     (\<lparr>shown = [\<lparr>profile_id = 20, first_name = ''Bob''\<rparr>], currentIndex = 0\<rparr>, matched) =
     (\<lparr>shown = [\<lparr>profile_id = 20, first_name = ''Bob''\<rparr>], currentIndex = 1\<rparr>,
      matched\<lparr>likes :=
        [\<lparr>like_id = 0, liker_id = 10, liked_id = 20, is_super_like = True\<rparr>,
         \<lparr>like_id = 2, liker_id = 20, liked_id = 10, is_super_like = False\<rparr>]\<rparr>) \<and>
   matches (matched\<lparr>likes :=
        [\<lparr>like_id = 0, liker_id = 10, liked_id = 20, is_super_like = True\<rparr>,
         \<lparr>like_id = 2, liker_id = 20, liked_id = 10, is_super_like = False\<rparr>]\<rparr>) = matches matched \<and>
   notifications (matched\<lparr>likes :=
        [\<lparr>like_id = 0, liker_id = 10, liked_id = 20, is_super_like = True\<rparr>,
         \<lparr>like_id = 2, liker_id = 20, liked_id = 10, is_super_like = False\<rparr>]\<rparr>) =
     notifications matched"
proof -
  let ?scr = "\<lparr>shown = [\<lparr>profile_id = 20, first_name = ''Bob''\<rparr>], currentIndex = 0\<rparr>"
  let ?scr' = "\<lparr>shown = [\<lparr>profile_id = 20, first_name = ''Bob''\<rparr>], currentIndex = 1\<rparr>"
  let ?d' = "matched\<lparr>likes :=
        [\<lparr>like_id = 0, liker_id = 10, liked_id = 20, is_super_like = True\<rparr>,
         \<lparr>like_id = 2, liker_id = 20, liked_id = 10, is_super_like = False\<rparr>]\<rparr>"
  have i: "currentIndex ?scr < length (shown ?scr)" by simp
  have p: "profile_id (shown ?scr ! currentIndex ?scr) = 20" by simp
  have h: "has_like 10 20 matched" by (simp add: has_like_def matched_eq)
  have r: "handleLike True 10 True True (?scr, matched) = (?scr', ?d')"
    by (simp add: handleLike_def upsert_like_def matched_eq)
  have "matches ?d' = matches matched \<and> notifications ?d' = notifications matched"
    using second_like_is_update[OF i p h r] by blast
  with h r show ?thesis by (simp only: simp_thms)
qed

subsection \<open>The profiles offered for discovery\<close>

text \<open>
  Against C10 when the request for the liked ids fails: Ann has liked Bob, the first
  request fails, its error is ignored, and the list offered to Ann holds Bob.
\<close>

theorem fetchProfiles_failed_likes_counterexample:
  "has_like 10 20 matched \<and>
   fetchProfiles profile_id False True (Some 10) matched =
     Some [\<lparr>profile_id = 20, first_name = ''Bob''\<rparr>, \<lparr>profile_id = 30, first_name = ''Cy''\<rparr>]"
  by (simp add: has_like_def fetchProfiles_def matched_eq ann_bob_cy_def ann_bob_def)

text \<open>
  C10. Whatever the order in which the database returns the rows, the list that
  \<open>fetchProfiles\<close> produces for the user \<open>u\<close> has at most ten profiles, each a row of
  \<open>profiles\<close> other than the user's own; and when the request for the liked ids
  succeeded, none of them is a profile that \<open>u\<close> has liked.
\<close>

theorem fetchProfiles_excludes_self_and_liked:
  assumes "fetchProfiles rank likes_ok profiles_ok (Some u) d = Some ps"
  shows "length ps \<le> 10 \<and>
    (\<forall>p \<in> set ps. p \<in> set (profiles d) \<and> profile_id p \<noteq> u \<and>
       (likes_ok \<longrightarrow> \<not> has_like u (profile_id p) d))"
proof -
  let ?liked = "map liked_id (filter (\<lambda>l. liker_id l = u) (likes d))"
  let ?ids = "if likes_ok then ?liked else []"
  let ?q = "filter (\<lambda>p. profile_id p \<noteq> u) (profiles d)"
  let ?q2 = "if length ?ids > 0 then filter (\<lambda>p. profile_id p \<notin> set ?ids) ?q else ?q"
  from assms have ps: "ps = take 10 (sort_key rank ?q2)"
    unfolding fetchProfiles_def Let_def by (cases likes_ok; simp split: if_splits)
  have len: "length ps \<le> 10" unfolding ps by simp
  have "p \<in> set (profiles d) \<and> profile_id p \<noteq> u \<and>
      (likes_ok \<longrightarrow> \<not> has_like u (profile_id p) d)"
    if "p \<in> set ps" for p
  proof -
    from that have "p \<in> set (sort_key rank ?q2)" unfolding ps by (rule in_set_takeD)
    then have in2: "p \<in> set ?q2" by (simp only: set_sort)
    have base: "p \<in> set (profiles d) \<and> profile_id p \<noteq> u"
      using in2 by (auto split: if_splits)
    have "\<not> has_like u (profile_id p) d" if ok: likes_ok
    proof (cases "length ?liked > 0")
      case True
      with in2 ok have "profile_id p \<notin> set ?liked" by simp
      then show ?thesis unfolding has_like_def by force
    next
      case False
      then have "\<forall>l \<in> set (likes d). liker_id l \<noteq> u"
        by (auto simp: filter_empty_conv)
      then show ?thesis unfolding has_like_def by blast
    qed
    with base show ?thesis by blast
  qed
  with len show ?thesis by blast
qed

theorem fetchProfiles_excludes_self_and_liked_witness:
  "fetchProfiles (\<lambda>p. 100 - profile_id p) True True (Some 10) (fresh_db ann_bob_cy) =
     Some [\<lparr>profile_id = 30, first_name = ''Cy''\<rparr>, \<lparr>profile_id = 20, first_name = ''Bob''\<rparr>] \<and>
   fetchProfiles profile_id True True (Some 10) matched =
     Some [\<lparr>profile_id = 30, first_name = ''Cy''\<rparr>] \<and>
   has_like 10 20 matched \<and> \<not> has_like 10 30 matched"
proof -
  have r0: "fetchProfiles (\<lambda>p. 100 - profile_id p) True True (Some 10) (fresh_db ann_bob_cy) =
     Some [\<lparr>profile_id = 30, first_name = ''Cy''\<rparr>, \<lparr>profile_id = 20, first_name = ''Bob''\<rparr>]"
    by (simp add: fetchProfiles_def fresh_db_def ann_bob_cy_def ann_bob_def)
  have r: "fetchProfiles profile_id True True (Some 10) matched =
      Some [\<lparr>profile_id = 30, first_name = ''Cy''\<rparr>]"
    by (simp add: fetchProfiles_def matched_eq ann_bob_cy_def ann_bob_def)
  have h: "has_like 10 20 matched" by (simp add: has_like_def matched_eq)
  from fetchProfiles_excludes_self_and_liked[OF r] r0 r h show ?thesis by simp
qed

end
